theory Spec2Isabelle
  imports Complex_Main
begin

section \<open>JavaScript numbers\<close>

text \<open>
  A JavaScript \<^verbatim>\<open>number\<close> is a double: a finite value, one of the two infinities, or NaN.
  A finite double is embedded as the real number it stands for, and the two zeros are one
  value. Comparisons are exact on doubles, so the order of the reals is the order the
  program sees. An addition or a division of doubles gives the double nearest to the exact
  result (\<open>round_to_double\<close> below).
\<close>

datatype number = NaN | NegInfinity | Num real | PosInfinity

text \<open>\<^verbatim>\<open>a <= b\<close>: false as soon as one side is NaN.\<close>

fun num_le :: "number \<Rightarrow> number \<Rightarrow> bool" where
  "num_le NaN b = False"
| "num_le NegInfinity b = (b \<noteq> NaN)"
| "num_le (Num x) NaN = False"
| "num_le (Num x) NegInfinity = False"
| "num_le (Num x) (Num y) = (x \<le> y)"
| "num_le (Num x) PosInfinity = True"
| "num_le PosInfinity b = (b = PosInfinity)"

text \<open>\<^verbatim>\<open>a < b\<close>.\<close>

fun num_lt :: "number \<Rightarrow> number \<Rightarrow> bool" where
  "num_lt NaN b = False"
| "num_lt NegInfinity b = (b \<noteq> NaN \<and> b \<noteq> NegInfinity)"
| "num_lt (Num x) NaN = False"
| "num_lt (Num x) NegInfinity = False"
| "num_lt (Num x) (Num y) = (x < y)"
| "num_lt (Num x) PosInfinity = True"
| "num_lt PosInfinity b = False"

text \<open>\<^verbatim>\<open>a >= b\<close> and \<^verbatim>\<open>a > b\<close> are the mirrored comparisons.\<close>

definition num_ge :: "number \<Rightarrow> number \<Rightarrow> bool" where
  "num_ge a b = num_le b a"

definition num_gt :: "number \<Rightarrow> number \<Rightarrow> bool" where
  "num_gt a b = num_lt b a"

text \<open>\<^verbatim>\<open>a === b\<close> on numbers: NaN equals nothing, not even itself.\<close>

definition num_eq :: "number \<Rightarrow> number \<Rightarrow> bool" where
  "num_eq a b = (a \<noteq> NaN \<and> a = b)"

subsection \<open>Rounding to a double\<close>

text \<open>
  IEEE 754 binary64, rounding to nearest, ties to even. A finite double is \<open>m * 2\<^sup>e\<close> with
  an integer \<open>m\<close> of magnitude below \<open>2\<^sup>5\<^sup>3\<close> and \<open>-1074 \<le> e \<le> 971\<close>.
\<close>

text \<open>The integer nearest to \<open>q\<close>; of two equally near ones, the even one.\<close>

definition round_half_even :: "real \<Rightarrow> int" where
  "round_half_even q =
     (let f = \<lfloor>q\<rfloor>; d = q - of_int f
      in if d < 1 / 2 then f else if 1 / 2 < d then f + 1 else if even f then f else f + 1)"

definition pow2 :: "int \<Rightarrow> real" where
  "pow2 e = (if 0 \<le> e then 2 ^ nat e else 1 / 2 ^ nat (- e))"

text \<open>
  The binade of a magnitude \<open>a\<close>: the \<open>k\<close> with \<open>2\<^sup>k \<le> a < 2\<^sup>k\<^sup>+\<^sup>1\<close>, kept within the exponents
  \<open>-1022 .. 1023\<close> of the normal doubles. It is found by stepping up from 0 or down from
  -1, at most as many steps as there are exponents on that side.
\<close>

fun binade_up :: "nat \<Rightarrow> real \<Rightarrow> int \<Rightarrow> int" where
  "binade_up n a k = (if n = 0 \<or> a < pow2 (k + 1) then k else binade_up (n - 1) a (k + 1))"

fun binade_down :: "nat \<Rightarrow> real \<Rightarrow> int \<Rightarrow> int" where
  "binade_down n a k = (if n = 0 \<or> pow2 k \<le> a then k else binade_down (n - 1) a (k - 1))"

declare binade_up.simps [simp del] binade_down.simps [simp del]

definition binade :: "real \<Rightarrow> int" where
  "binade a = (if 1 \<le> a then binade_up 1023 a 0 else binade_down 1021 a (- 1))"

text \<open>
  The double nearest to the real \<open>x\<close>: its magnitude is rounded to a multiple of the unit
  in the last place of its binade, \<open>2\<^sup>k\<^sup>-\<^sup>5\<^sup>2\<close> (\<open>2\<^sup>-\<^sup>1\<^sup>0\<^sup>7\<^sup>4\<close> for \<open>k = -1022\<close>, which covers the
  subnormal doubles and zero); a result of \<open>2\<^sup>1\<^sup>0\<^sup>2\<^sup>4\<close> or more is an infinity.
\<close>

definition round_to_double :: "real \<Rightarrow> number" where
  "round_to_double x =
     (let a = \<bar>x\<bar>;
          e = binade a - 52;
          y = of_int (round_half_even (a / pow2 e)) * pow2 e
      in if 2 ^ 1024 \<le> y then (if x < 0 then NegInfinity else PosInfinity)
         else Num (if x < 0 then - y else y))"

text \<open>
  The double that the literal \<^verbatim>\<open>0.1\<close> denotes (lemma \<open>tenth_literal\<close>); it lies a little
  above one tenth. The other literals of the program (3, 1.5, 0.5, 0.25 and their
  negatives) are doubles themselves.
\<close>

definition tenth :: real where
  "tenth = 3602879701896397 / 2 ^ 55"

text \<open>\<^verbatim>\<open>a + b\<close> on numbers.\<close>

fun num_add :: "number \<Rightarrow> number \<Rightarrow> number" where
  "num_add (Num x) (Num y) = round_to_double (x + y)"
| "num_add NaN b = NaN"
| "num_add a NaN = NaN"
| "num_add PosInfinity NegInfinity = NaN"
| "num_add NegInfinity PosInfinity = NaN"
| "num_add PosInfinity b = PosInfinity"
| "num_add a PosInfinity = PosInfinity"
| "num_add NegInfinity b = NegInfinity"
| "num_add a NegInfinity = NegInfinity"

text \<open>
  \<^verbatim>\<open>a / n\<close> for a divisor that is the length of an array: a natural number, which is a
  double as it is. A zero divisor does not throw in JavaScript: it gives NaN for
  \<^verbatim>\<open>0 / 0\<close> and an infinity otherwise.
\<close>

fun num_div :: "number \<Rightarrow> nat \<Rightarrow> number" where
  "num_div NaN n = NaN"
| "num_div PosInfinity n = PosInfinity"
| "num_div NegInfinity n = NegInfinity"
| "num_div (Num x) n =
     (if n = 0 then (if x = 0 then NaN else if x < 0 then NegInfinity else PosInfinity)
      else round_to_double (x / real n))"

section \<open>Category threshold tables\<close>

type_synonym category_table = "(number \<times> string) list"

text \<open>\<^verbatim>\<open>src/unnamed/part_000\<close>, lines 10-16.\<close>

definition SENTIMENT_CATEGORIES_p0 :: category_table where
  "SENTIMENT_CATEGORIES_p0 =
     [(Num (- 0.5), ''very mean''),
      (Num 0, ''mean''),
      (Num tenth, ''neutral''),
      (Num 0.5, ''nice''),
      (PosInfinity, ''very nice'')]"

text \<open>\<^verbatim>\<open>src/index.ts\<close>, lines 10-16 (the first file of the three in \<^verbatim>\<open>index.ts\<close>).\<close>

definition SENTIMENT_CATEGORIES_i1 :: category_table where
  "SENTIMENT_CATEGORIES_i1 =
     [(Num (- 3), ''very mean''),
      (Num (- 0.25), ''mean''),
      (Num (- tenth), ''neutral''),
      (Num tenth, ''nice''),
      (Num 0.25, ''very nice'')]"

text \<open>\<^verbatim>\<open>src/index.ts\<close>, lines 177-183 (the second file).\<close>

definition SENTIMENT_CATEGORIES_i2 :: category_table where
  "SENTIMENT_CATEGORIES_i2 =
     [(NegInfinity, ''very mean''),
      (Num (- 0.25), ''mean''),
      (Num (- tenth), ''neutral''),
      (Num tenth, ''nice''),
      (Num 0.25, ''very nice'')]"

text \<open>\<^verbatim>\<open>src/unnamed/part_001\<close>, lines 3-13 (the first file of the two in \<^verbatim>\<open>part_001\<close>).\<close>

definition SENTIMENT_CATEGORIES_s1 :: category_table where
  "SENTIMENT_CATEGORIES_s1 =
     [(Num (- 3), ''extremely negative''),
      (Num (- 1.5), ''very negative''),
      (Num (- 0.5), ''negative''),
      (Num (- tenth), ''slightly negative''),
      (Num tenth, ''neutral''),
      (Num 0.5, ''slightly positive''),
      (Num 1.5, ''positive''),
      (Num 3, ''very positive''),
      (PosInfinity, ''extremely positive'')]"

text \<open>The bounds of a table go strictly upwards.\<close>

fun strictly_increasing :: "number list \<Rightarrow> bool" where
  "strictly_increasing (a # b # r) = (num_lt a b \<and> strictly_increasing (b # r))"
| "strictly_increasing r = True"

section \<open>Classification\<close>

text \<open>
  \<^verbatim>\<open>TABLE.find(([threshold]) => score <= threshold)\<close>: the first entry of the table, in
  table order, whose bound the score does not exceed; \<^verbatim>\<open>undefined\<close> is \<open>None\<close>.
\<close>

definition find_entry :: "category_table \<Rightarrow> number \<Rightarrow> (number \<times> string) option" where
  "find_entry table score = List.find (\<lambda>(threshold, label). num_le score threshold) table"

text \<open>\<^verbatim>\<open>entry?.[1] ?? 'neutral'\<close>.\<close>

definition label_or_neutral :: "(number \<times> string) option \<Rightarrow> string" where
  "label_or_neutral entry = (case entry of Some (threshold, label) \<Rightarrow> label | None \<Rightarrow> ''neutral'')"

text \<open>\<^verbatim>\<open>analyzeSentiment(score)\<close> of \<^verbatim>\<open>src/index.ts\<close>, lines 48-50.\<close>

definition analyzeSentiment_i1 :: "number \<Rightarrow> string" where
  "analyzeSentiment_i1 score = label_or_neutral (find_entry SENTIMENT_CATEGORIES_i1 score)"

text \<open>\<^verbatim>\<open>analyzeSentiment(score)\<close> of \<^verbatim>\<open>src/index.ts\<close>, lines 215-217.\<close>

definition analyzeSentiment_i2 :: "number \<Rightarrow> string" where
  "analyzeSentiment_i2 score = label_or_neutral (find_entry SENTIMENT_CATEGORIES_i2 score)"

text \<open>\<^verbatim>\<open>analyzeSentiment(score)\<close> of \<^verbatim>\<open>src/unnamed/part_001\<close>, lines 44-46.\<close>

definition analyzeSentiment_s1 :: "number \<Rightarrow> string" where
  "analyzeSentiment_s1 score = label_or_neutral (find_entry SENTIMENT_CATEGORIES_s1 score)"

text \<open>
  \<^verbatim>\<open>analyzeSentiment(score)\<close> of \<^verbatim>\<open>src/unnamed/part_001\<close>, lines 181-194: the latest
  classifier, a chain of comparisons with no table.
\<close>

definition analyzeSentiment_s2 :: "number \<Rightarrow> string" where
  "analyzeSentiment_s2 score =
     (if num_eq score (Num 0) then ''neutral''
      else if num_lt score (Num 0) then
        (if num_le score (Num (- 3)) then ''extremely negative''
         else if num_le score (Num (- 1.5)) then ''very negative''
         else if num_le score (Num (- 0.5)) then ''negative''
         else ''slightly negative'')
      else
        (if num_le score (Num 0.5) then ''slightly positive''
         else if num_le score (Num 1.5) then ''positive''
         else if num_le score (Num 3) then ''very positive''
         else ''extremely positive''))"

section \<open>Score aggregation\<close>

text \<open>
  The \<^verbatim>\<open>sentiment\<close> package is not part of the repository: its \<^verbatim>\<open>analyze(text, options)\<close>
  is a parameter of the model. Of its result only the field \<^verbatim>\<open>comparative\<close> is read; the
  package computes it as a quotient guarded against an empty token list, so it is a finite
  double.
\<close>

record options =
  language :: "string option"
  extras :: "(string \<times> real) list option"

record analysis =
  comparative :: real

type_synonym analyzer = "string \<Rightarrow> options option \<Rightarrow> analysis"

text \<open>
  \<^verbatim>\<open>analyzeSentimentScore(texts, options)\<close>: the same text in \<^verbatim>\<open>src/index.ts\<close> (lines 29-40
  and 196-207) and in \<^verbatim>\<open>src/unnamed/part_001\<close> (lines 25-36 and 151-162).
  \<^verbatim>\<open>reduce((sum, score) => sum + score, 0)\<close> is a left fold from 0; every addition and the
  division round to a double.
\<close>

definition analyzeSentimentScore :: "analyzer \<Rightarrow> string list \<Rightarrow> options option \<Rightarrow> number" where
  "analyzeSentimentScore analyze texts opts =
     (if length texts > 0
      then num_div
             (foldl (\<lambda>sum score. num_add sum (Num score)) (Num 0)
                (map (\<lambda>text. comparative (analyze text opts)) texts))
             (length texts)
      else Num 0)"

text \<open>
  \<^verbatim>\<open>src/unnamed/part_000\<close>, lines 29-45: the earliest \<^verbatim>\<open>analyzeSentiment(texts, options)\<close>
  averages and classifies in one function; \<open>averageComparative_p0\<close> is its local constant.
\<close>

definition averageComparative_p0 :: "analyzer \<Rightarrow> string list \<Rightarrow> options option \<Rightarrow> number" where
  "averageComparative_p0 analyze texts opts =
     (if length texts > 0
      then num_div
             (foldl (\<lambda>sum score. num_add sum (Num score)) (Num 0)
                (map (\<lambda>text. comparative (analyze text opts)) texts))
             (length texts)
      else Num 0)"

definition analyzeSentiment_p0 :: "analyzer \<Rightarrow> string list \<Rightarrow> options option \<Rightarrow> string" where
  "analyzeSentiment_p0 analyze texts opts =
     label_or_neutral (find_entry SENTIMENT_CATEGORIES_p0 (averageComparative_p0 analyze texts opts))"

section \<open>Score formatting\<close>

text \<open>
  Strings are lists of bytes: an ASCII character is one \<open>char\<close>, every other character
  of the source text is written as its UTF-8 bytes.
\<close>

definition digit_char :: "nat \<Rightarrow> char" where
  "digit_char d = ''0123456789'' ! (d mod 10)"

text \<open>The digits of the decimal representation of a natural number, without leading zeros.\<close>

fun decimal :: "nat \<Rightarrow> string" where
  "decimal n = (if n < 10 then [digit_char n] else decimal (n div 10) @ [digit_char n])"

declare decimal.simps [simp del]

text \<open>
  \<^verbatim>\<open>score.toFixed(2)\<close>, after ECMAScript's \<^verbatim>\<open>Number.prototype.toFixed\<close>: a value that
  is not finite prints as its name; otherwise the sign is split off, \<open>n\<close> is the integer
  for which \<open>n / 100\<close> is closest to the magnitude (the larger one of two), its digits
  are padded with zeros to three at least, and the point goes before the last two.
  From \<open>10\<^sup>2\<^sup>1\<close> on the result is the exponent notation of \<^verbatim>\<open>Number::toString\<close>,
  a built-in that is left as the parameter \<open>toString\<close>.
\<close>

definition toFixed2 :: "(real \<Rightarrow> string) \<Rightarrow> number \<Rightarrow> string" where
  "toFixed2 toString v =
     (case v of
        NaN \<Rightarrow> ''NaN''
      | NegInfinity \<Rightarrow> ''-Infinity''
      | PosInfinity \<Rightarrow> ''Infinity''
      | Num x0 \<Rightarrow>
          (let s = (if x0 < 0 then ''-'' else '''');
               x = (if x0 < 0 then - x0 else x0);
               m = (if x \<ge> 10 ^ 21 then toString x
                    else
                      (let n = nat \<lfloor>x * 100 + 1 / 2\<rfloor>;
                           m0 = decimal n;
                           k0 = length m0;
                           m1 = (if k0 \<le> 2 then replicate (3 - k0) (CHR ''0'') @ m0 else m0);
                           k = (if k0 \<le> 2 then 3 else k0)
                       in take (k - 2) m1 @ ''.'' @ drop (k - 2) m1))
           in s @ m))"

text \<open>
  \<^verbatim>\<open>.replace(/\.?0+$/, '')\<close>. The pattern is an optional point, one zero or more, and
  the end of the string; \<open>zeros_to_end\<close> is \<^verbatim>\<open>0+$\<close>, \<open>match_at_start\<close> says that the
  pattern matches at the first position of its argument. \<^verbatim>\<open>replace\<close> with a pattern
  without the \<^verbatim>\<open>g\<close> flag removes the leftmost match only, and a match of this pattern
  reaches the end of the string.
\<close>

definition zeros_to_end :: "string \<Rightarrow> bool" where
  "zeros_to_end s = (s \<noteq> [] \<and> list_all (\<lambda>c. c = CHR ''0'') s)"

definition match_at_start :: "string \<Rightarrow> bool" where
  "match_at_start s =
     (case s of
        [] \<Rightarrow> False
      | c # r \<Rightarrow> (c = CHR ''.'' \<and> zeros_to_end r) \<or> zeros_to_end (c # r))"

fun replace_trailing_zeros :: "string \<Rightarrow> string" where
  "replace_trailing_zeros [] = []"
| "replace_trailing_zeros (c # r) =
     (if match_at_start (c # r) then [] else c # replace_trailing_zeros r)"

text \<open>\<^verbatim>\<open>formatScore(score)\<close>: \<^verbatim>\<open>src/unnamed/part_001\<close>, lines 70-73.\<close>

definition formatScore :: "(real \<Rightarrow> string) \<Rightarrow> number \<Rightarrow> string" where
  "formatScore toString score =
     (if num_ge score (Num 0) then ''+'' else '''')
     @ replace_trailing_zeros (toFixed2 toString score)"

section \<open>The composer with a response table (\<^verbatim>\<open>src/unnamed/part_001\<close>, lines 1-139)\<close>

text \<open>\<^verbatim>\<open>getSentimentEmoji(score)\<close>, lines 54-64; the glyphs are the bytes of the source text.\<close>

definition getSentimentEmoji_s1 :: "number \<Rightarrow> string" where
  "getSentimentEmoji_s1 score =
     (if num_le score (Num (- 3)) then [CHR 0xC3, CHR 0xB0, CHR 0xC5, CHR 0xB8, CHR 0xC2, CHR 0xA4, CHR 0xC2, CHR 0xAC]
      else if num_le score (Num (- 1.5)) then [CHR 0xC3, CHR 0xB0, CHR 0xC5, CHR 0xB8, CHR 0xCB, CHR 0x9C, CHR 0xC2, CHR 0xA1]
      else if num_le score (Num (- 0.5)) then [CHR 0xC3, CHR 0xB0, CHR 0xC5, CHR 0xB8, CHR 0xCB, CHR 0x9C, CHR 0xC2, CHR 0xA0]
      else if num_le score (Num (- tenth)) then [CHR 0xC3, CHR 0xB0, CHR 0xC5, CHR 0xB8, CHR 0xCB, CHR 0x9C, CHR 0xE2, CHR 0x80, CHR 0xA2]
      else if num_le score (Num tenth) then [CHR 0xC3, CHR 0xB0, CHR 0xC5, CHR 0xB8, CHR 0xCB, CHR 0x9C]
      else if num_le score (Num 0.5) then [CHR 0xC3, CHR 0xB0, CHR 0xC5, CHR 0xB8, CHR 0xE2, CHR 0x84, CHR 0xA2, CHR 0xE2, CHR 0x80, CHR 0x9A]
      else if num_le score (Num 1.5) then [CHR 0xC3, CHR 0xB0, CHR 0xC5, CHR 0xB8, CHR 0xCB, CHR 0x9C, CHR 0xC5, CHR 0xA0]
      else if num_le score (Num 3) then [CHR 0xC3, CHR 0xB0, CHR 0xC5, CHR 0xB8, CHR 0xCB, CHR 0x9C, CHR 0xE2, CHR 0x80, CHR 0x9E]
      else [CHR 0xC3, CHR 0xB0, CHR 0xC5, CHR 0xB8, CHR 0xC2, CHR 0xA5, CHR 0xC2, CHR 0xB0])"

text \<open>
  The object \<^verbatim>\<open>responses\<close> of \<^verbatim>\<open>generateSentimentResponse\<close>, lines 88-134: one entry
  per category, built around the formatted score.
\<close>

record response =
  message :: string
  detail :: string
  suggestion :: string

definition responses_s1 :: "string \<Rightarrow> (string \<times> response) list" where
  "responses_s1 formattedScore =
     [(''extremely negative'',
       \<lparr>message = ''Yikes! Your posts have been giving off some serious storm clouds lately.'',
        detail = ''Your sentiment score is '' @ formattedScore @ '' (extremely negative).'',
        suggestion = ''Want to try sprinkling in some positivity? It might brighten up your corner of the internet!''\<rparr>),
      (''very negative'',
       \<lparr>message = ''Hmm, seems like you've been having some rough conversations recently.'',
        detail = ''Your sentiment score is '' @ formattedScore @ '' (very negative).'',
        suggestion = ''A dash of kindness goes a long way - might be worth giving it a shot?''\<rparr>),
      (''negative'',
       \<lparr>message = ''Your recent posts have a bit of an edge to them.'',
        detail = ''Your sentiment score is '' @ formattedScore @ '' (negative).'',
        suggestion = ''Try adding a positive comment for every critical one - it works wonders!''\<rparr>),
      (''slightly negative'',
       \<lparr>message = ''You're leaning slightly toward the grumpy side of the internet.'',
        detail = ''Your sentiment score is '' @ formattedScore @ '' (slightly negative).'',
        suggestion = ''You're almost at neutral territory - just a few kind words could tip the balance!''\<rparr>),
      (''neutral'',
       \<lparr>message = ''You're walking the middle path in your online conversations.'',
        detail = ''Your sentiment score is '' @ formattedScore @ '' (perfectly balanced).'',
        suggestion = ''Neither overly critical nor excessively sweet - the Switzerland of Bluesky!''\<rparr>),
      (''slightly positive'',
       \<lparr>message = ''There's a hint of sunshine in your recent posts!'',
        detail = ''Your sentiment score is '' @ formattedScore @ '' (slightly positive).'',
        suggestion = ''That touch of positivity makes a difference - keep it up!''\<rparr>),
      (''positive'',
       \<lparr>message = ''Your posts have a genuinely warm vibe to them.'',
        detail = ''Your sentiment score is '' @ formattedScore @ '' (positive).'',
        suggestion = ''Your energy is exactly what social media needs more of!''\<rparr>),
      (''very positive'',
       \<lparr>message = ''Wow, you're radiating good vibes in your posts!'',
        detail = ''Your sentiment score is '' @ formattedScore @ '' (very positive).'',
        suggestion = ''Whatever you're doing, it's working - your positivity is contagious!''\<rparr>),
      (''extremely positive'',
       \<lparr>message = ''Are you made of sunshine?! Your posts are off-the-charts uplifting!'',
        detail = ''Your sentiment score is '' @ formattedScore @ '' (extremely positive).'',
        suggestion = ''You're in rare air with this level of positivity - you must brighten everyone's day!''\<rparr>)]"

text \<open>
  \<^verbatim>\<open>generateSentimentResponse(username, score, postCount = 100)\<close>, lines 83-139.
  Destructuring \<^verbatim>\<open>responses[sentiment]\<close> throws a TypeError when the object has no such
  key. The parameter \<^verbatim>\<open>postCount\<close> is not read.
\<close>

datatype error = TypeError

definition generateSentimentResponse_s1 ::
    "(real \<Rightarrow> string) \<Rightarrow> string \<Rightarrow> number \<Rightarrow> number option \<Rightarrow> error + string" where
  "generateSentimentResponse_s1 toString username score postCount =
     (let sentiment = analyzeSentiment_s1 score;
          emoji = getSentimentEmoji_s1 score;
          formattedScore = formatScore toString score
      in case map_of (responses_s1 formattedScore) sentiment of
           None \<Rightarrow> Inl TypeError
         | Some r \<Rightarrow>
             Inr (emoji @ '' Hey @'' @ username @ ''! '' @ message r @ '' '' @ detail r
                  @ '' '' @ suggestion r))"

section \<open>The composer with phrase pools (\<^verbatim>\<open>src/unnamed/part_001\<close>, lines 140-501)\<close>

text \<open>\<^verbatim>\<open>getSentimentEmoji(score)\<close>, lines 202-216.\<close>

definition getSentimentEmoji_s2 :: "number \<Rightarrow> string" where
  "getSentimentEmoji_s2 score =
     (if num_eq score (Num 0) then [CHR 0xF0, CHR 0x9F, CHR 0x98, CHR 0x90]
      else if num_lt score (Num 0) then
        (if num_le score (Num (- 3)) then [CHR 0xF0, CHR 0x9F, CHR 0xA4, CHR 0xAC]
         else if num_le score (Num (- 1.5)) then [CHR 0xF0, CHR 0x9F, CHR 0x98, CHR 0xA1]
         else if num_le score (Num (- 0.5)) then [CHR 0xF0, CHR 0x9F, CHR 0x98, CHR 0xA0]
         else [CHR 0xF0, CHR 0x9F, CHR 0x98, CHR 0x95])
      else
        (if num_le score (Num tenth) then [CHR 0xF0, CHR 0x9F, CHR 0x99, CHR 0x82]
         else if num_le score (Num 0.5) then [CHR 0xF0, CHR 0x9F, CHR 0x98, CHR 0x8C]
         else if num_le score (Num 1.5) then [CHR 0xF0, CHR 0x9F, CHR 0x98, CHR 0x8A]
         else if num_le score (Num 3) then [CHR 0xF0, CHR 0x9F, CHR 0x98, CHR 0x84]
         else [CHR 0xF0, CHR 0x9F, CHR 0xA5, CHR 0xB0]))"

text \<open>\<^verbatim>\<open>neutral\<close>: \<^verbatim>\<open>src/unnamed/part_001\<close>, lines 219-227.\<close>

definition neutral :: "string list" where
  "neutral =
     [''Your vibe is pretty neutral right now.'',
      ''You're keeping it balanced in your conversations.'',
      ''Not leaning positive or negative - just keeping it real.'',
      ''You're in the neutral zone with your messaging.'',
      ''Your posts are giving very middle-of-the-road energy.'',
      ''You're neither a downer nor a hype machine right now.'',
      ''Your messages are about as neutral as they come.'']"

text \<open>\<^verbatim>\<open>slightlyNegative\<close>: \<^verbatim>\<open>src/unnamed/part_001\<close>, lines 230-239.\<close>

definition slightlyNegative :: "string list" where
  "slightlyNegative =
     [''There's a bit of an edge to your recent posts.'',
      ''You seem slightly annoyed in your conversations.'',
      ''Your tone's got a tiny bite to it lately.'',
      ''You're giving off some minor irritation vibes.'',
      ''Your messages have a subtle hint of frustration.'',
      ''You're keeping it real, maybe a little too real.'',
      ''There's a dash of salt in your recent comments.'',
      ''You're not exactly feeling the warm fuzzies right now.'']"

text \<open>\<^verbatim>\<open>moderatelyNegative\<close>: \<^verbatim>\<open>src/unnamed/part_001\<close>, lines 242-251.\<close>

definition moderatelyNegative :: "string list" where
  "moderatelyNegative =
     [''You're not holding back the negativity lately.'',
      ''Your posts are giving off some serious side-eye.'',
      ''You seem pretty fed up in your recent messages.'',
      ''You're definitely in a mood based on these posts.'',
      ''Your patience seems to be wearing thin.'',
      ''You're not exactly spreading the joy right now.'',
      ''Your messages suggest you're having a rough time.'',
      ''The frustration is coming through loud and clear.'']"

text \<open>\<^verbatim>\<open>veryNegative\<close>: \<^verbatim>\<open>src/unnamed/part_001\<close>, lines 254-263.\<close>

definition veryNegative :: "string list" where
  "veryNegative =
     [''Your posts are radiating some serious negativity.'',
      ''You're not mincing words about how you feel. And it's not great.'',
      ''You're in a proper funk based on these messages.'',
      ''Your messages are giving major 'stay away' energy.'',
      ''You're really letting your dark side show in these posts.'',
      ''Your conversations are dripping with hostility lately.'',
      ''You're throwing some serious shade in your messaging.'',
      ''These posts suggest you're having a genuinely awful time.'']"

text \<open>\<^verbatim>\<open>extremelyNegative\<close>: \<^verbatim>\<open>src/unnamed/part_001\<close>, lines 266-275.\<close>

definition extremelyNegative :: "string list" where
  "extremelyNegative =
     [''Your posts are nuclear-level negative right now.'',
      ''Damn, who hurt you? Your messages are brutal.'',
      ''You're on a rampage with these comments.'',
      ''Your posts are absolutely scorching the earth.'',
      ''These messages could make a therapist wince.'',
      ''You're not just burning bridges, you're obliterating them.'',
      ''Your negativity meter is completely maxed out.'',
      ''You might want to step away from the keyboard for a bit.'']"

text \<open>\<^verbatim>\<open>slightlyPositive\<close>: \<^verbatim>\<open>src/unnamed/part_001\<close>, lines 278-287.\<close>

definition slightlyPositive :: "string list" where
  "slightlyPositive =
     [''There's a hint of positivity in your posts.'',
      ''You're giving off subtle good vibes.'',
      ''Your messages have a slight upbeat tone to them.'',
      ''You seem to be in a decent mood in your posts.'',
      ''There's a gentle optimism in your messages.'',
      ''You're leaning slightly toward the bright side.'',
      ''Your posts have a minor positive spin to them.'',
      ''You're keeping things just a little sunny in your messages.'']"

text \<open>\<^verbatim>\<open>moderatelyPositive\<close>: \<^verbatim>\<open>src/unnamed/part_001\<close>, lines 290-299.\<close>

definition moderatelyPositive :: "string list" where
  "moderatelyPositive =
     [''You've got some genuinely good energy in your posts.'',
      ''Your messages are giving off solid positive vibes.'',
      ''You seem to be in a pretty good headspace right now.'',
      ''Your positivity is definitely coming through.'',
      ''You're bringing some welcome warmth to conversations.'',
      ''Your posts have a refreshingly upbeat quality.'',
      ''You're spreading good vibes without overdoing it.'',
      ''There's an authentic brightness to your messages.'']"

text \<open>\<^verbatim>\<open>veryPositive\<close>: \<^verbatim>\<open>src/unnamed/part_001\<close>, lines 302-311.\<close>

definition veryPositive :: "string list" where
  "veryPositive =
     [''Your posts are seriously uplifting to read.'',
      ''You're bringing major positive energy to these conversations.'',
      ''Your messages could brighten anyone's day.'',
      ''You're not just positive, you're inspiringly so.'',
      ''Your posts radiate genuine enthusiasm and warmth.'',
      ''You're on a real positivity streak in these messages.'',
      ''Your good vibes game is exceptionally strong right now.'',
      ''You're like a breath of fresh air in these conversations.'']"

text \<open>\<^verbatim>\<open>extremelyPositive\<close>: \<^verbatim>\<open>src/unnamed/part_001\<close>, lines 314-323.\<close>

definition extremelyPositive :: "string list" where
  "extremelyPositive =
     [''Your posts are off-the-charts positive right now.'',
      ''You're basically a walking serotonin boost with these messages.'',
      ''Your positivity is almost suspiciously high. And I'm here for it.'',
      ''You must be having the best day ever based on these posts.'',
      ''Your optimism levels are through the roof.'',
      ''You're not just spreading positivity, you're weaponizing it.'',
      ''Your posts are making unicorns and rainbows seem cynical.'',
      ''Whatever you're on, I want some. Your positivity is unreal.'']"

text \<open>\<^verbatim>\<open>extremelyNegativeSuggestions\<close>: \<^verbatim>\<open>src/unnamed/part_001\<close>, lines 344-355.\<close>

definition extremelyNegativeSuggestions :: "string list" where
  "extremelyNegativeSuggestions =
     [''Whoa there - you might want to take a breath before sending that.'',
      ''Consider if this level of negativity is really getting your point across.'',
      ''Your posts are pretty harsh - maybe sleep on it before sending?'',
      ''Your frustration is clear, but a calmer approach might be more effective.'',
      ''Try focusing on solutions rather than just the problems.'',
      ''Your posts might burn bridges - is that what you really want?'',
      ''Consider if your tone matches how you want to be perceived online.'',
      ''Your critiques might be valid, but the delivery could use some work.'',
      ''Think about whether your posts will help or just escalate things.'',
      ''Maybe try reframing your concerns in a more constructive way.'']"

text \<open>\<^verbatim>\<open>veryNegativeSuggestions\<close>: \<^verbatim>\<open>src/unnamed/part_001\<close>, lines 358-369.\<close>

definition veryNegativeSuggestions :: "string list" where
  "veryNegativeSuggestions =
     [''Your posts come across strongly negative - maybe soften it a bit?'',
      ''Consider adding some constructive suggestions along with your criticisms.'',
      ''This level of negativity might overshadow your actual points.'',
      ''Try acknowledging some positives before diving into the negatives.'',
      ''Your posts might be taken more seriously with a more measured tone.'',
      ''Consider if your posts will help resolve the situation or inflame it.'',
      ''You've made your dissatisfaction clear - now try offering solutions.'',
      ''Your posts might come across harsher than you intend.'',
      ''Try focusing on specific issues rather than general negativity.'',
      ''A more balanced approach might make people more receptive to your feedback.'']"

text \<open>\<^verbatim>\<open>moderatelyNegativeSuggestions\<close>: \<^verbatim>\<open>src/unnamed/part_001\<close>, lines 372-383.\<close>

definition moderatelyNegativeSuggestions :: "string list" where
  "moderatelyNegativeSuggestions =
     [''Your posts lean negative - try balancing it with some positives.'',
      ''Consider whether your tone matches your intentions here.'',
      ''A little more optimism might make your posts more persuasive.'',
      ''Try framing your concerns as constructive feedback.'',
      ''Your skepticism comes through - maybe pair it with some encouragement?'',
      ''Consider adding some solutions along with pointing out problems.'',
      ''Your critical eye is valuable, but so is acknowledging what's working.'',
      ''Try sandwiching your criticism between positive observations.'',
      ''A slightly more upbeat tone might help get your message across.'',
      ''Consider if your posts might be interpreted as more negative than intended.'']"

text \<open>\<^verbatim>\<open>slightlyNegativeSuggestions\<close>: \<^verbatim>\<open>src/unnamed/part_001\<close>, lines 386-397.\<close>

definition slightlyNegativeSuggestions :: "string list" where
  "slightlyNegativeSuggestions =
     [''Your posts have a slight edge to it - a bit more positivity could help.'',
      ''Consider adding some encouraging words to balance out the tone.'',
      ''Try acknowledging the positives before getting into concerns.'',
      ''Your posts come across as a bit dismissive - maybe soften it?'',
      ''A slightly warmer tone might make your posts more effective.'',
      ''Consider whether this slight negativity is intentional or accidental.'',
      ''Try phrasing your concerns as questions instead of statements.'',
      ''Your posts have a subtle negative undertone - is that what you intended?'',
      ''A touch more enthusiasm could change how your posts are received.'',
      ''Consider if a more positive framing would better serve your purpose.'']"

text \<open>\<^verbatim>\<open>neutralSuggestions\<close>: \<^verbatim>\<open>src/unnamed/part_001\<close>, lines 400-411.\<close>

definition neutralSuggestions :: "string list" where
  "neutralSuggestions =
     [''Your posts are pretty neutral - try adding some personality.'',
      ''Show a bit more of your authentic feelings next time.'',
      ''Your tone is balanced, but don't be afraid to express more emotion.'',
      ''Consider adding more colour to your posts to stand out.'',
      ''Your neutrality is fine, but people connect more with emotional content.'',
      ''Try injecting some enthusiasm into your next post.'',
      ''Your posts are safe, but sometimes taking a stance connects better.'',
      ''Being neutral is fine, but showing passion can be more engaging.'',
      ''Consider whether your balanced approach is actually what you intend.'',
      ''A bit more expressiveness might make your posts more memorable.'']"

text \<open>\<^verbatim>\<open>slightlyPositiveSuggestions\<close>: \<^verbatim>\<open>src/unnamed/part_001\<close>, lines 414-425.\<close>

definition slightlyPositiveSuggestions :: "string list" where
  "slightlyPositiveSuggestions =
     [''Keep up that positive energy in your posts! A bit more could really shine.'',
      ''Your posts have a nice optimistic feel - let it show even more!'',
      ''Love seeing those hints of positivity. Why not express it more openly?'',
      ''You seem to be in a good mood - share more of that with your followers!'',
      ''You're spreading some good vibes. Don't be shy about it!'',
      ''That subtle positivity in your posts is great. Let it out more!'',
      ''Nice to see you keeping things upbeat. Your followers probably appreciate it.'',
      ''You're bringing some light positivity - feel free to brighten it up more!'',
      ''Those positive posts are a good look on you. Keep that energy going!'',
      ''Your posts have a nice warm tone. Your followers might enjoy even more of that.'']"

text \<open>\<^verbatim>\<open>moderatelyPositiveSuggestions\<close>: \<^verbatim>\<open>src/unnamed/part_001\<close>, lines 428-439.\<close>

definition moderatelyPositiveSuggestions :: "string list" where
  "moderatelyPositiveSuggestions =
     [''You're spreading good vibes! Maybe share what specifically made you feel this way?'',
      ''Love your upbeat posts! Adding details about why could inspire others even more.'',
      ''Your optimism is contagious! Tell us more about what sparked this positivity.'',
      ''You're clearly feeling great! Share the story behind that enthusiasm.'',
      ''Such a positive outlook! What specific moments led to these good feelings?'',
      ''Your cheerful posts brighten the feed! What exactly has you so pumped?'',
      ''You're radiating happiness! Let's hear the details that got you there.'',
      ''Loving this positive energy! Paint us a picture of what inspired it.'',
      ''You're in such a great headspace! Share those little wins with us.'',
      ''Your posts are a ray of sunshine! Tell us more about these happy moments.'']"

text \<open>\<^verbatim>\<open>veryPositiveSuggestions\<close>: \<^verbatim>\<open>src/unnamed/part_001\<close>, lines 442-453.\<close>

definition veryPositiveSuggestions :: "string list" where
  "veryPositiveSuggestions =
     [''Your posts are super positive! Maybe share what specifically got you so excited?'',
      ''Loving your enthusiastic posts! Adding some details would make them even better.'',
      ''Your feed is full of great vibes! Tell us more about what made your day.'',
      ''You're spreading so much positivity! Share the story behind all this joy.'',
      ''Such uplifting posts! What awesome things happened to inspire this?'',
      ''Your posts are radiating happiness! Let us know what got you feeling this way.'',
      ''You're in an amazing mood! Give us the highlights that led to this.'',
      ''Your positivity is infectious! Share those moments that made you smile.'',
      ''You're really lighting up the timeline! What's got you so pumped?'',
      ''Love seeing you this happy! Tell everyone what sparked all this good energy.'']"

text \<open>\<^verbatim>\<open>extremelyPositiveSuggestions\<close>: \<^verbatim>\<open>src/unnamed/part_001\<close>, lines 456-467.\<close>

definition extremelyPositiveSuggestions :: "string list" where
  "extremelyPositiveSuggestions =
     [''Your incredible enthusiasm is contagious! Share what amazing things led to this joy!'',
      ''Wow, your positivity is through the roof! Tell us the story behind this excitement!'',
      ''Your posts are absolutely glowing with happiness! What wonderful things happened?'',
      ''Such amazing energy in your posts! Share those fantastic moments with everyone!'',
      ''Your joy is lighting up the timeline! Tell us what has you feeling so fantastic!'',
      ''Love seeing this boundless optimism! What incredible things got you here?'',
      ''Your posts are pure sunshine today! Share those amazing experiences!'',
      ''This enthusiasm is infectious! Let everyone know what sparked such joy!'',
      ''Your positivity is absolutely radiant! Tell us about these wonderful moments!'',
      ''Such incredible positive energy! Share the amazing story behind these good vibes!'']"

text \<open>
  \<^verbatim>\<open>Math.random()\<close> reads a global generator. Its state is the sequence of the values it
  will return, each in \<open>[0, 1)\<close>; a call returns the first and leaves the rest.
\<close>

type_synonym random_source = "nat \<Rightarrow> real"

definition Math_random :: "random_source \<Rightarrow> real \<times> random_source" where
  "Math_random rnd = (rnd 0, \<lambda>n. rnd (Suc n))"

text \<open>
  The values the two lookups below can return: a string, a whole array of strings, or
  \<^verbatim>\<open>undefined\<close> (an array read at an index it does not have).
\<close>

datatype jsvalue = Str string | Arr "string list" | Undefined

text \<open>
  \<^verbatim>\<open>getRandomArrayItem(array)\<close>, line 325. The product of the random number and the length
  is taken as the exact real.
\<close>

definition getRandomArrayItem :: "string list \<Rightarrow> random_source \<Rightarrow> jsvalue \<times> random_source" where
  "getRandomArrayItem array rnd =
     (let (u, rnd') = Math_random rnd;
          i = \<lfloor>u * real (length array)\<rfloor>
      in (if 0 \<le> i \<and> nat i < length array then Str (array ! nat i) else Undefined, rnd'))"

text \<open>\<^verbatim>\<open>getSentimentMessage(score)\<close>, lines 327-341.\<close>

definition getSentimentMessage :: "number \<Rightarrow> random_source \<Rightarrow> jsvalue \<times> random_source" where
  "getSentimentMessage score rnd =
     (if num_eq score (Num 0) then getRandomArrayItem neutral rnd
      else if num_lt score (Num 0) then
        (if num_le score (Num (- 3)) then getRandomArrayItem extremelyNegative rnd
         else if num_le score (Num (- 1.5)) then getRandomArrayItem veryNegative rnd
         else if num_le score (Num (- 0.5)) then getRandomArrayItem moderatelyNegative rnd
         else getRandomArrayItem slightlyNegative rnd)
      else
        (if num_ge score (Num 3) then getRandomArrayItem extremelyPositive rnd
         else if num_ge score (Num 1.5) then getRandomArrayItem veryPositive rnd
         else if num_ge score (Num 0.5) then getRandomArrayItem moderatelyPositive rnd
         else getRandomArrayItem slightlyPositive rnd))"

text \<open>\<^verbatim>\<open>getSentimentSuggestion(score)\<close>, lines 469-483.\<close>

definition getSentimentSuggestion :: "number \<Rightarrow> random_source \<Rightarrow> jsvalue \<times> random_source" where
  "getSentimentSuggestion score rnd =
     (if num_eq score (Num 0) then (Arr neutralSuggestions, rnd)
      else if num_lt score (Num 0) then
        (if num_le score (Num (- 3)) then getRandomArrayItem extremelyNegativeSuggestions rnd
         else if num_le score (Num (- 1.5)) then getRandomArrayItem veryNegativeSuggestions rnd
         else if num_le score (Num (- 0.5)) then getRandomArrayItem moderatelyNegativeSuggestions rnd
         else getRandomArrayItem slightlyNegativeSuggestions rnd)
      else
        (if num_ge score (Num 3) then getRandomArrayItem extremelyPositiveSuggestions rnd
         else if num_ge score (Num 1.5) then getRandomArrayItem veryPositiveSuggestions rnd
         else if num_ge score (Num 0.5) then getRandomArrayItem moderatelyPositiveSuggestions rnd
         else getRandomArrayItem slightlyPositiveSuggestions rnd))"

text \<open>\<^verbatim>\<open>Array.prototype.join\<close> with the separator \<^verbatim>\<open>','\<close>.\<close>

fun join_comma :: "string list \<Rightarrow> string" where
  "join_comma [] = []"
| "join_comma [x] = x"
| "join_comma (x # y # ys) = x @ '','' @ join_comma (y # ys)"

text \<open>
  A value inside \<^verbatim>\<open>${...}\<close> of a template literal is converted to a string: a string is
  itself, an array is its elements joined by commas, \<^verbatim>\<open>undefined\<close> is its name.
\<close>

fun interpolate :: "jsvalue \<Rightarrow> string" where
  "interpolate (Str s) = s"
| "interpolate (Arr xs) = join_comma xs"
| "interpolate Undefined = ''undefined''"

text \<open>
  \<^verbatim>\<open>generateSentimentResponse(username, score)\<close>, lines 493-501. The message is drawn
  before the suggestion; the generator is returned as the two lookups leave it.
\<close>

definition generateSentimentResponse_s2 ::
    "(real \<Rightarrow> string) \<Rightarrow> string \<Rightarrow> number \<Rightarrow> random_source \<Rightarrow> string \<times> random_source" where
  "generateSentimentResponse_s2 toString username score rnd =
     (let sentiment = analyzeSentiment_s2 score;
          emoji = getSentimentEmoji_s2 score;
          (message, rnd1) = getSentimentMessage score rnd;
          (suggestion, rnd2) = getSentimentSuggestion score rnd1;
          formattedScore = toFixed2 toString score
      in (emoji @ '' Hey @'' @ username @ ''! '' @ interpolate message
          @ '' Your sentiment score is '' @ formattedScore @ '' ('' @ sentiment @ ''). ''
          @ interpolate suggestion, rnd2))"

section \<open>Properties of the rounding\<close>

lemma pow2_pos: "0 < pow2 e"
  by (simp add: pow2_def)

lemma pow2_Suc: "pow2 (k + 1) = 2 * pow2 k"
proof (cases "0 \<le> k")
  case True
  then have "nat (k + 1) = Suc (nat k)" by simp
  with True show ?thesis by (simp add: pow2_def)
next
  case False
  then obtain j where j: "nat (- k) = Suc j" by (cases "nat (- k)") simp_all
  then have "nat (- (k + 1)) = j" by simp
  moreover have "k + 1 \<le> 0" using False by simp
  ultimately show ?thesis using False j
    by (cases "k + 1 = 0") (simp_all add: pow2_def)
qed

lemma pow2_add_nat: "pow2 (k + int n) = 2 ^ n * pow2 k"
proof (induction n)
  case 0
  show ?case by simp
next
  case (Suc n)
  have "k + int (Suc n) = k + int n + 1" by simp
  then have "pow2 (k + int (Suc n)) = pow2 (k + int n + 1)" by (rule arg_cong)
  also have "\<dots> = 2 * pow2 (k + int n)" by (rule pow2_Suc)
  finally show ?case using Suc by simp
qed

lemma pow2_mono: "a \<le> b \<Longrightarrow> pow2 a \<le> pow2 b"
proof -
  assume "a \<le> b"
  then have "b = a + int (nat (b - a))" by simp
  then have "pow2 b = 2 ^ nat (b - a) * pow2 a" using pow2_add_nat [of a "nat (b - a)"] by simp
  moreover have "(1::real) \<le> 2 ^ nat (b - a)" by simp
  ultimately show ?thesis using pow2_pos [of a] by (simp add: mult_le_cancel_right1)
qed

lemma binade_unique:
  assumes "pow2 r \<le> a" "a < pow2 (r + 1)" "pow2 k \<le> a" "a < pow2 (k + 1)"
  shows "r = k"
proof (rule ccontr)
  assume "r \<noteq> k"
  then consider "r + 1 \<le> k" | "k + 1 \<le> r" by linarith
  then show False
  proof cases
    case 1
    then have "pow2 (r + 1) \<le> pow2 k" by (rule pow2_mono)
    with assms show False by linarith
  next
    case 2
    then have "pow2 (k + 1) \<le> pow2 r" by (rule pow2_mono)
    with assms show False by linarith
  qed
qed

lemma binade_up_spec:
  assumes "pow2 k \<le> a" and "a < pow2 (k + int n + 1)"
  shows "pow2 (binade_up n a k) \<le> a \<and> a < pow2 (binade_up n a k + 1)"
  using assms
proof (induction n arbitrary: k)
  case 0
  then show ?case by (simp add: binade_up.simps)
next
  case (Suc n)
  show ?case
  proof (cases "a < pow2 (k + 1)")
    case True
    with Suc.prems show ?thesis by (simp add: binade_up.simps)
  next
    case False
    then have "pow2 (k + 1) \<le> a" by simp
    moreover have "a < pow2 (k + 1 + int n + 1)" using Suc.prems(2) by (simp add: add.commute add.left_commute)
    ultimately have "pow2 (binade_up n a (k + 1)) \<le> a \<and> a < pow2 (binade_up n a (k + 1) + 1)"
      by (rule Suc.IH)
    moreover have "binade_up (Suc n) a k = binade_up n a (k + 1)"
      using False by (subst binade_up.simps) simp
    ultimately show ?thesis by simp
  qed
qed

lemma binade_down_spec:
  assumes "a < pow2 (k + 1)" and "pow2 (k - int n) \<le> a"
  shows "pow2 (binade_down n a k) \<le> a \<and> a < pow2 (binade_down n a k + 1)"
  using assms
proof (induction n arbitrary: k)
  case 0
  then show ?case by (simp add: binade_down.simps)
next
  case (Suc n)
  show ?case
  proof (cases "pow2 k \<le> a")
    case True
    with Suc.prems show ?thesis by (simp add: binade_down.simps)
  next
    case False
    then have "a < pow2 (k - 1 + 1)" by simp
    moreover have "pow2 (k - 1 - int n) \<le> a" using Suc.prems(2) by (simp add: algebra_simps)
    ultimately have "pow2 (binade_down n a (k - 1)) \<le> a \<and> a < pow2 (binade_down n a (k - 1) + 1)"
      by (rule Suc.IH)
    moreover have "binade_down (Suc n) a k = binade_down n a (k - 1)"
      using False by (subst binade_down.simps) simp
    ultimately show ?thesis by simp
  qed
qed

lemma binade_down_floor:
  assumes "a < pow2 (k - int n + 1)"
  shows "binade_down n a k = k - int n"
  using assms
proof (induction n arbitrary: k)
  case 0
  then show ?case by (simp add: binade_down.simps)
next
  case (Suc n)
  have "pow2 (k - int (Suc n) + 1) \<le> pow2 k" by (rule pow2_mono) simp
  with Suc.prems have nk: "\<not> pow2 k \<le> a" by linarith
  have "a < pow2 (k - 1 - int n + 1)" using Suc.prems by (simp add: algebra_simps)
  then have "binade_down n a (k - 1) = k - 1 - int n" by (rule Suc.IH)
  moreover have "binade_down (Suc n) a k = binade_down n a (k - 1)"
    using nk by (subst binade_down.simps) simp
  ultimately show ?case by simp
qed

lemma binade_normal:
  assumes "pow2 k \<le> a" and "a < pow2 (k + 1)" and "- 1022 \<le> k" and "k \<le> 1023"
  shows "binade a = k"
proof (cases "1 \<le> a")
  case True
  have "pow2 0 \<le> a" using True by (simp add: pow2_def)
  moreover have "pow2 (k + 1) \<le> pow2 (0 + int 1023 + 1)" by (rule pow2_mono) (use assms in simp)
  then have "a < pow2 (0 + int 1023 + 1)" using assms(2) by linarith
  ultimately have "pow2 (binade_up 1023 a 0) \<le> a \<and> a < pow2 (binade_up 1023 a 0 + 1)"
    by (rule binade_up_spec)
  then have "binade_up 1023 a 0 = k" using assms(1,2) by (auto intro: binade_unique)
  then show ?thesis using True by (simp add: binade_def)
next
  case False
  then have "a < pow2 (- 1 + 1)" by (simp add: pow2_def)
  moreover have "pow2 (- 1 - int 1021) \<le> pow2 k" by (rule pow2_mono) (use assms in simp)
  then have "pow2 (- 1 - int 1021) \<le> a" using assms(1) by linarith
  ultimately have "pow2 (binade_down 1021 a (- 1)) \<le> a \<and> a < pow2 (binade_down 1021 a (- 1) + 1)"
    by (rule binade_down_spec)
  then have "binade_down 1021 a (- 1) = k" using assms(1,2) by (auto intro: binade_unique)
  then show ?thesis using False by (simp add: binade_def)
qed

lemma binade_subnormal:
  assumes "a < pow2 (- 1022)"
  shows "binade a = - 1022"
proof -
  have "pow2 (- 1022) \<le> pow2 0" by (rule pow2_mono) simp
  then have "\<not> 1 \<le> a" using assms by (simp add: pow2_def)
  moreover have "pow2 (- 1022) \<le> pow2 (- 1021)" by (rule pow2_mono) simp
  then have "a < pow2 (- 1 - int 1021 + 1)" using assms by simp
  then have "binade_down 1021 a (- 1) = - 1 - int 1021"
    by (rule binade_down_floor)
  ultimately show ?thesis by (simp add: binade_def)
qed

lemma round_half_even_near:
  assumes "\<bar>q - of_int m\<bar> < 1 / 2"
  shows "round_half_even q = m"
proof (cases "of_int m \<le> q")
  case True
  have "q < of_int m + 1" using assms by linarith
  with True have "\<lfloor>q\<rfloor> = m" by (rule floor_unique)
  moreover have "q - of_int m < 1 / 2" using assms by linarith
  ultimately show ?thesis by (simp add: round_half_even_def Let_def)
next
  case False
  have e: "of_int (m - 1) = (of_int m :: real) - 1" by simp
  have lo: "of_int (m - 1) \<le> q" unfolding e using assms by linarith
  have hi: "q < of_int (m - 1) + 1" unfolding e using False by linarith
  from lo hi have f: "\<lfloor>q\<rfloor> = m - 1" by (rule floor_unique)
  have "1 / 2 < q - of_int (m - 1)" unfolding e using assms False by linarith
  with f show ?thesis by (simp add: round_half_even_def Let_def)
qed


lemma round_to_double_zero: "round_to_double 0 = Num 0"
proof -
  have "binade 0 = - 1022" by (rule binade_subnormal) (rule pow2_pos)
  then show ?thesis by (simp add: round_to_double_def round_half_even_def Let_def)
qed

lemma round_to_double_at:
  assumes "pow2 k \<le> \<bar>x\<bar>" and "\<bar>x\<bar> < pow2 (k + 1)" and "- 1022 \<le> k" and "k \<le> 1023"
    and "round_half_even (\<bar>x\<bar> / pow2 (k - 52)) = m"
    and "of_int m * pow2 (k - 52) < 2 ^ 1024"
  shows "round_to_double x
           = Num (if x < 0 then - (of_int m * pow2 (k - 52)) else of_int m * pow2 (k - 52))"
proof -
  have b: "binade \<bar>x\<bar> = k" using assms(1-4) by (rule binade_normal)
  show ?thesis unfolding round_to_double_def Let_def b assms(5) using assms(6) by simp
qed

lemma tenth_literal: "round_to_double 0.1 = Num tenth"
proof -
  have "round_half_even (\<bar>0.1\<bar> / pow2 (- 4 - 52)) = 7205759403792794"
    by (rule round_half_even_near) (simp add: pow2_def)
  then have "round_to_double 0.1
      = Num (if (0.1::real) < 0 then - (of_int 7205759403792794 * pow2 (- 4 - 52))
             else of_int 7205759403792794 * pow2 (- 4 - 52))"
    by (intro round_to_double_at) (simp_all add: pow2_def)
  then show ?thesis by (simp add: pow2_def tenth_def)
qed
lemma round_to_double_exact:
  assumes "pow2 k \<le> \<bar>x\<bar>" and "\<bar>x\<bar> < pow2 (k + 1)" and "- 1022 \<le> k" and "k \<le> 1023"
    and "\<bar>x\<bar> / pow2 (k - 52) \<in> \<int>"
  shows "round_to_double x = Num x"
proof -
  from assms(5) obtain m where m: "\<bar>x\<bar> / pow2 (k - 52) = of_int m" by (auto elim: Ints_cases)
  have r: "round_half_even (\<bar>x\<bar> / pow2 (k - 52)) = m"
    by (rule round_half_even_near) (simp add: m)
  have y: "of_int m * pow2 (k - 52) = \<bar>x\<bar>"
    using m pow2_pos [of "k - 52"] by (simp add: field_simps)
  have "pow2 (k + 1) \<le> pow2 1024" by (rule pow2_mono) (use assms(4) in simp)
  then have "\<bar>x\<bar> < 2 ^ 1024" using assms(2) by (simp add: pow2_def)
  then have "of_int m * pow2 (k - 52) < 2 ^ 1024" by (simp only: y)
  with assms(1-4) r have "round_to_double x
      = Num (if x < 0 then - (of_int m * pow2 (k - 52)) else of_int m * pow2 (k - 52))"
    by (rule round_to_double_at)
  then show ?thesis unfolding y by (simp split: if_splits)
qed




text \<open>The doubles that occur in the examples below.\<close>

lemma double_half: "round_to_double (1 / 2) = Num (1 / 2)"
  by (rule round_to_double_exact [where k = "- 1"]) (simp_all add: pow2_def)




lemma fifth_literal: "round_to_double 0.2 = Num (2 * tenth)"
proof -
  have "round_half_even (\<bar>0.2\<bar> / pow2 (- 3 - 52)) = 7205759403792794"
    by (rule round_half_even_near) (simp add: pow2_def)
  then have "round_to_double 0.2
      = Num (if (0.2::real) < 0 then - (of_int 7205759403792794 * pow2 (- 3 - 52))
             else of_int 7205759403792794 * pow2 (- 3 - 52))"
    by (intro round_to_double_at) (simp_all add: pow2_def)
  then show ?thesis by (simp add: pow2_def tenth_def)
qed

lemma two_fifths_literal: "round_to_double 0.4 = Num (4 * tenth)"
proof -
  have "round_half_even (\<bar>0.4\<bar> / pow2 (- 2 - 52)) = 7205759403792794"
    by (rule round_half_even_near) (simp add: pow2_def)
  then have "round_to_double 0.4
      = Num (if (0.4::real) < 0 then - (of_int 7205759403792794 * pow2 (- 2 - 52))
             else of_int 7205759403792794 * pow2 (- 2 - 52))"
    by (intro round_to_double_at) (simp_all add: pow2_def)
  then show ?thesis by (simp add: pow2_def tenth_def)
qed

lemma minus_fifth_literal: "round_to_double (- 0.2) = Num (- (2 * tenth))"
proof -
  have "round_half_even (\<bar>- 0.2\<bar> / pow2 (- 3 - 52)) = 7205759403792794"
    by (rule round_half_even_near) (simp add: pow2_def)
  then have "round_to_double (- 0.2)
      = Num (if (- 0.2::real) < 0 then - (of_int 7205759403792794 * pow2 (- 3 - 52))
             else of_int 7205759403792794 * pow2 (- 3 - 52))"
    by (intro round_to_double_at) (simp_all add: pow2_def)
  then show ?thesis by (simp add: pow2_def tenth_def)
qed



section \<open>Properties of the classifiers\<close>

lemmas table_defs =
  SENTIMENT_CATEGORIES_p0_def SENTIMENT_CATEGORIES_i1_def
  SENTIMENT_CATEGORIES_i2_def SENTIMENT_CATEGORIES_s1_def tenth_def

lemmas classifier_defs =
  analyzeSentiment_i1_def analyzeSentiment_i2_def analyzeSentiment_s1_def
  analyzeSentiment_p0_def find_entry_def label_or_neutral_def tenth_def

text \<open>
  The two tables that end with \<^verbatim>\<open>Infinity\<close> (\<^verbatim>\<open>part_000\<close> and the nine-way table of
  \<^verbatim>\<open>part_001\<close>) have strictly increasing bounds, and the scan finds an entry for every
  score that is not NaN.
\<close>

lemma infinity_tables_increasing:
  "strictly_increasing (map fst SENTIMENT_CATEGORIES_p0)
   \<and> strictly_increasing (map fst SENTIMENT_CATEGORIES_s1)
   \<and> fst (last SENTIMENT_CATEGORIES_p0) = PosInfinity
   \<and> fst (last SENTIMENT_CATEGORIES_s1) = PosInfinity"
  by (simp add: table_defs)

lemma infinity_tables_total:
  "find_entry SENTIMENT_CATEGORIES_p0 (Num x) \<noteq> None
   \<and> find_entry SENTIMENT_CATEGORIES_s1 (Num x) \<noteq> None"
  by (simp add: find_entry_def table_defs)

text \<open>
  C1. Every threshold table ends with an unbounded entry, so that the scan finds an
  entry for every finite score and the fallback is never taken. The two tables of
  \<^verbatim>\<open>src/index.ts\<close> end with the bound 0.25 (and are strictly increasing): at the score 1
  the scan finds no entry and both classifiers fall back to \<^verbatim>\<open>'neutral'\<close>, although the
  comment of the last entry reads "Moderately to highly positive".
\<close>

theorem index_tables_fall_back:
  "strictly_increasing (map fst SENTIMENT_CATEGORIES_i1)
   \<and> strictly_increasing (map fst SENTIMENT_CATEGORIES_i2)
   \<and> last SENTIMENT_CATEGORIES_i1 = (Num 0.25, ''very nice'')
   \<and> last SENTIMENT_CATEGORIES_i2 = (Num 0.25, ''very nice'')
   \<and> find_entry SENTIMENT_CATEGORIES_i1 (Num 1) = None
   \<and> find_entry SENTIMENT_CATEGORIES_i2 (Num 1) = None
   \<and> analyzeSentiment_i1 (Num 1) = ''neutral''
   \<and> analyzeSentiment_i2 (Num 1) = ''neutral''"
  by (simp add: classifier_defs table_defs)

text \<open>
  C2, as stated: in every nine-way classifier the score 0.1 is \<^verbatim>\<open>'neutral'\<close>. The latest
  classifier has no cut at 0.1 and calls only the score 0 neutral (\<open>tenth\<close> is the double
  of the literal \<^verbatim>\<open>0.1\<close>; the real number one tenth fares the same).
\<close>

theorem latest_classifier_at_tenth:
  "analyzeSentiment_s2 (Num tenth) = ''slightly positive''
   \<and> analyzeSentiment_s2 (Num tenth) \<noteq> ''neutral''
   \<and> analyzeSentiment_s2 (Num 0.1) = ''slightly positive''
   \<and> analyzeSentiment_s2 (Num 0.1) \<noteq> ''neutral''"
  by (simp add: analyzeSentiment_s2_def num_eq_def tenth_def)

text \<open>
  C2, amended. In each table-based classifier a score equal to a bound of the table gets the
  label the table pairs with that bound, and the labels of a table are pairwise different,
  so it is not the label of the next entry. In the latest classifier the scores equal to
  the cut points -3, -1.5, -0.5, 0.5, 1.5 and 3 get the lower category. The score 0.1 is
  \<^verbatim>\<open>'neutral'\<close> in the nine-way table and \<^verbatim>\<open>'slightly positive'\<close> in the latest classifier.
\<close>

theorem boundary_inclusive:
  "(\<forall>(t, l) \<in> set SENTIMENT_CATEGORIES_p0.
      averageComparative_p0 analyze texts opts = t \<longrightarrow> analyzeSentiment_p0 analyze texts opts = l)
   \<and> (\<forall>(t, l) \<in> set SENTIMENT_CATEGORIES_i1. analyzeSentiment_i1 t = l)
   \<and> (\<forall>(t, l) \<in> set SENTIMENT_CATEGORIES_i2. analyzeSentiment_i2 t = l)
   \<and> (\<forall>(t, l) \<in> set SENTIMENT_CATEGORIES_s1. analyzeSentiment_s1 t = l)
   \<and> distinct (map snd SENTIMENT_CATEGORIES_p0)
   \<and> distinct (map snd SENTIMENT_CATEGORIES_i1)
   \<and> distinct (map snd SENTIMENT_CATEGORIES_i2)
   \<and> distinct (map snd SENTIMENT_CATEGORIES_s1)
   \<and> analyzeSentiment_s1 (Num tenth) = ''neutral''
   \<and> analyzeSentiment_s1 (Num 0.1) = ''neutral''
   \<and> analyzeSentiment_s2 (Num (- 3)) = ''extremely negative''
   \<and> analyzeSentiment_s2 (Num (- 1.5)) = ''very negative''
   \<and> analyzeSentiment_s2 (Num (- 0.5)) = ''negative''
   \<and> analyzeSentiment_s2 (Num 0.5) = ''slightly positive''
   \<and> analyzeSentiment_s2 (Num 1.5) = ''positive''
   \<and> analyzeSentiment_s2 (Num 3) = ''very positive''
   \<and> analyzeSentiment_s2 (Num tenth) = ''slightly positive''
   \<and> analyzeSentiment_s2 (Num 0.1) = ''slightly positive''"
proof -
  have p0: "\<forall>(t, l) \<in> set SENTIMENT_CATEGORIES_p0.
      averageComparative_p0 analyze texts opts = t \<longrightarrow> analyzeSentiment_p0 analyze texts opts = l"
    by (simp add: classifier_defs SENTIMENT_CATEGORIES_p0_def)
  have i1: "\<forall>(t, l) \<in> set SENTIMENT_CATEGORIES_i1. analyzeSentiment_i1 t = l"
    by (simp add: classifier_defs SENTIMENT_CATEGORIES_i1_def)
  have i2: "\<forall>(t, l) \<in> set SENTIMENT_CATEGORIES_i2. analyzeSentiment_i2 t = l"
    by (simp add: classifier_defs SENTIMENT_CATEGORIES_i2_def)
  have s1: "\<forall>(t, l) \<in> set SENTIMENT_CATEGORIES_s1. analyzeSentiment_s1 t = l"
    by (simp add: classifier_defs SENTIMENT_CATEGORIES_s1_def)
  have d: "distinct (map snd SENTIMENT_CATEGORIES_p0) \<and> distinct (map snd SENTIMENT_CATEGORIES_i1)
      \<and> distinct (map snd SENTIMENT_CATEGORIES_i2) \<and> distinct (map snd SENTIMENT_CATEGORIES_s1)"
    by (simp add: table_defs)
  have s1': "analyzeSentiment_s1 (Num tenth) = ''neutral''
      \<and> analyzeSentiment_s1 (Num 0.1) = ''neutral''"
    by (simp add: classifier_defs SENTIMENT_CATEGORIES_s1_def)
  have s2: "analyzeSentiment_s2 (Num (- 3)) = ''extremely negative''
      \<and> analyzeSentiment_s2 (Num (- 1.5)) = ''very negative''
      \<and> analyzeSentiment_s2 (Num (- 0.5)) = ''negative''
      \<and> analyzeSentiment_s2 (Num 0.5) = ''slightly positive''
      \<and> analyzeSentiment_s2 (Num 1.5) = ''positive''
      \<and> analyzeSentiment_s2 (Num 3) = ''very positive''
      \<and> analyzeSentiment_s2 (Num tenth) = ''slightly positive''
      \<and> analyzeSentiment_s2 (Num 0.1) = ''slightly positive''"
    by (simp add: analyzeSentiment_s2_def num_eq_def tenth_def)
  from p0 i1 i2 s1 d s1' s2 show ?thesis by blast
qed

theorem boundary_inclusive_witness:
  "(Num tenth, ''nice'') \<in> set SENTIMENT_CATEGORIES_i1 \<and> analyzeSentiment_i1 (Num tenth) = ''nice''
   \<and> (Num tenth, ''neutral'') \<in> set SENTIMENT_CATEGORIES_s1
   \<and> analyzeSentiment_s1 (Num tenth) = ''neutral''
   \<and> (NegInfinity, ''very mean'') \<in> set SENTIMENT_CATEGORIES_i2
   \<and> analyzeSentiment_i2 NegInfinity = ''very mean''
   \<and> (Num 0.5, ''nice'') \<in> set SENTIMENT_CATEGORIES_p0
   \<and> averageComparative_p0 (\<lambda>text opts. \<lparr>comparative = 0.5\<rparr>) [''a''] None = Num 0.5
   \<and> analyzeSentiment_p0 (\<lambda>text opts. \<lparr>comparative = 0.5\<rparr>) [''a''] None = ''nice''"
proof -
  have m: "(Num tenth, ''nice'') \<in> set SENTIMENT_CATEGORIES_i1
      \<and> (Num tenth, ''neutral'') \<in> set SENTIMENT_CATEGORIES_s1
      \<and> (NegInfinity, ''very mean'') \<in> set SENTIMENT_CATEGORIES_i2
      \<and> (Num 0.5, ''nice'') \<in> set SENTIMENT_CATEGORIES_p0"
    by (simp add: SENTIMENT_CATEGORIES_p0_def SENTIMENT_CATEGORIES_i1_def
        SENTIMENT_CATEGORIES_i2_def SENTIMENT_CATEGORIES_s1_def)
  have a: "averageComparative_p0 (\<lambda>text opts. \<lparr>comparative = 0.5\<rparr>) [''a''] None = Num 0.5"
    using double_half by (simp add: averageComparative_p0_def)
  from m a boundary_inclusive [of "\<lambda>text opts. \<lparr>comparative = 0.5\<rparr>" "[''a'']" None]
  show ?thesis by fastforce
qed

text \<open>
  C3, as stated: the score 0 gets the neutral label of every table. In the first table of
  \<^verbatim>\<open>src/index.ts\<close> the score 0 lies above the bound -0.1 of \<^verbatim>\<open>'neutral'\<close> and gets \<^verbatim>\<open>'nice'\<close>.
\<close>

theorem index_table_zero_is_nice:
  "analyzeSentiment_i1 (Num 0) = ''nice'' \<and> analyzeSentiment_i1 (Num 0) \<noteq> ''neutral''"
  by (simp add: classifier_defs SENTIMENT_CATEGORIES_i1_def)

text \<open>
  C3, amended. The score 0 is \<^verbatim>\<open>'neutral'\<close> in the two nine-way classifiers of
  \<^verbatim>\<open>part_001\<close>. In the five-way tables it is not: 0 is the inclusive bound of \<^verbatim>\<open>'mean'\<close> in
  \<^verbatim>\<open>part_000\<close>, and it lies between the bounds -0.1 and 0.1 of both tables of
  \<^verbatim>\<open>src/index.ts\<close>, where it gets \<^verbatim>\<open>'nice'\<close>.
\<close>

theorem zero_score_labels:
  "analyzeSentiment_s1 (Num 0) = ''neutral''
   \<and> analyzeSentiment_s2 (Num 0) = ''neutral''
   \<and> analyzeSentiment_i1 (Num 0) = ''nice''
   \<and> analyzeSentiment_i2 (Num 0) = ''nice''
   \<and> (averageComparative_p0 analyze texts opts = Num 0
        \<longrightarrow> analyzeSentiment_p0 analyze texts opts = ''mean'')
   \<and> analyzeSentiment_p0 analyze [] opts = ''mean''"
  by (simp add: classifier_defs table_defs analyzeSentiment_s2_def num_eq_def
      averageComparative_p0_def)

theorem zero_score_labels_witness:
  "averageComparative_p0 (\<lambda>text opts. \<lparr>comparative = 0\<rparr>) [''a'', ''b''] None = Num 0
   \<and> analyzeSentiment_p0 (\<lambda>text opts. \<lparr>comparative = 0\<rparr>) [''a'', ''b''] None = ''mean''"
proof -
  have a: "averageComparative_p0 (\<lambda>text opts. \<lparr>comparative = 0\<rparr>) [''a'', ''b''] None = Num 0"
    by (simp add: averageComparative_p0_def round_to_double_zero)
  from a zero_score_labels [of "\<lambda>text opts. \<lparr>comparative = 0\<rparr>" "[''a'', ''b'']" None]
  show ?thesis by blast
qed

lemma label_of_find_in_table:
  "label_or_neutral (find_entry table s) \<in> insert ''neutral'' (snd ` set table)"
proof (induction table)
  case Nil
  show ?case by (simp add: find_entry_def label_or_neutral_def)
next
  case (Cons e table)
  then show ?case
    by (cases e) (auto simp: find_entry_def label_or_neutral_def)
qed

lemma label_in_table_with_neutral:
  assumes "''neutral'' \<in> snd ` set table"
  shows "label_or_neutral (find_entry table s) \<in> snd ` set table"
  using label_of_find_in_table [of table s] assms by (simp add: insert_absorb)

lemma neutral_in_tables:
  "''neutral'' \<in> snd ` set SENTIMENT_CATEGORIES_p0"
  "''neutral'' \<in> snd ` set SENTIMENT_CATEGORIES_i1"
  "''neutral'' \<in> snd ` set SENTIMENT_CATEGORIES_i2"
  "''neutral'' \<in> snd ` set SENTIMENT_CATEGORIES_s1"
  by (simp_all add: table_defs)

lemma latest_classifier_labels:
  "analyzeSentiment_s2 s \<in> snd ` set SENTIMENT_CATEGORIES_s1"
  by (simp add: analyzeSentiment_s2_def SENTIMENT_CATEGORIES_s1_def)

text \<open>
  C6. The table-based classifiers return a label for every score (finite or not): a label
  of the table, and \<^verbatim>\<open>'neutral'\<close> when the scan finds no entry. The latest classifier
  returns one of its nine labels.
\<close>

theorem classify_total:
  "analyzeSentiment_i1 s \<in> snd ` set SENTIMENT_CATEGORIES_i1
   \<and> analyzeSentiment_i2 s \<in> snd ` set SENTIMENT_CATEGORIES_i2
   \<and> analyzeSentiment_s1 s \<in> snd ` set SENTIMENT_CATEGORIES_s1
   \<and> analyzeSentiment_p0 analyze texts opts \<in> snd ` set SENTIMENT_CATEGORIES_p0
   \<and> analyzeSentiment_s2 s \<in> snd ` set SENTIMENT_CATEGORIES_s1
   \<and> (find_entry SENTIMENT_CATEGORIES_i1 s = None \<longrightarrow> analyzeSentiment_i1 s = ''neutral'')
   \<and> (find_entry SENTIMENT_CATEGORIES_i2 s = None \<longrightarrow> analyzeSentiment_i2 s = ''neutral'')
   \<and> (find_entry SENTIMENT_CATEGORIES_s1 s = None \<longrightarrow> analyzeSentiment_s1 s = ''neutral'')
   \<and> (find_entry SENTIMENT_CATEGORIES_p0 (averageComparative_p0 analyze texts opts) = None
        \<longrightarrow> analyzeSentiment_p0 analyze texts opts = ''neutral'')"
proof -
  have i1: "analyzeSentiment_i1 s \<in> snd ` set SENTIMENT_CATEGORIES_i1"
    unfolding analyzeSentiment_i1_def
    by (rule label_in_table_with_neutral [OF neutral_in_tables(2)])
  have i2: "analyzeSentiment_i2 s \<in> snd ` set SENTIMENT_CATEGORIES_i2"
    unfolding analyzeSentiment_i2_def
    by (rule label_in_table_with_neutral [OF neutral_in_tables(3)])
  have s1: "analyzeSentiment_s1 s \<in> snd ` set SENTIMENT_CATEGORIES_s1"
    unfolding analyzeSentiment_s1_def
    by (rule label_in_table_with_neutral [OF neutral_in_tables(4)])
  have p0: "analyzeSentiment_p0 analyze texts opts \<in> snd ` set SENTIMENT_CATEGORIES_p0"
    unfolding analyzeSentiment_p0_def
    by (rule label_in_table_with_neutral [OF neutral_in_tables(1)])
  have fb: "(find_entry SENTIMENT_CATEGORIES_i1 s = None \<longrightarrow> analyzeSentiment_i1 s = ''neutral'')
      \<and> (find_entry SENTIMENT_CATEGORIES_i2 s = None \<longrightarrow> analyzeSentiment_i2 s = ''neutral'')
      \<and> (find_entry SENTIMENT_CATEGORIES_s1 s = None \<longrightarrow> analyzeSentiment_s1 s = ''neutral'')
      \<and> (find_entry SENTIMENT_CATEGORIES_p0 (averageComparative_p0 analyze texts opts) = None
            \<longrightarrow> analyzeSentiment_p0 analyze texts opts = ''neutral'')"
    by (simp add: analyzeSentiment_i1_def analyzeSentiment_i2_def analyzeSentiment_s1_def
        analyzeSentiment_p0_def label_or_neutral_def)
  from i1 i2 s1 p0 latest_classifier_labels fb show ?thesis by blast
qed

theorem classify_total_witness:
  "find_entry SENTIMENT_CATEGORIES_i1 (Num 1) = None
   \<and> analyzeSentiment_i1 (Num 1) = ''neutral''
   \<and> find_entry SENTIMENT_CATEGORIES_s1 NaN = None
   \<and> analyzeSentiment_s1 NaN = ''neutral''"
proof -
  have n: "find_entry SENTIMENT_CATEGORIES_i1 (Num 1) = None
      \<and> find_entry SENTIMENT_CATEGORIES_s1 NaN = None"
    by (simp add: find_entry_def table_defs)
  from n classify_total [of "Num 1"] classify_total [of NaN] show ?thesis by blast
qed

text \<open>
  C9. In the table of \<^verbatim>\<open>src/index.ts\<close> whose first bound is \<^verbatim>\<open>-Infinity\<close> and whose last
  bound is 0.25, no finite score is \<^verbatim>\<open>'very mean'\<close>: every finite score up to -0.25 is
  \<^verbatim>\<open>'mean'\<close>. A score above 0.25 matches no entry and is \<^verbatim>\<open>'neutral'\<close>.
\<close>

theorem neg_infinity_table:
  "(\<forall>x. analyzeSentiment_i2 (Num x) \<noteq> ''very mean'')
   \<and> (\<forall>x. x \<le> - 0.25 \<longrightarrow> analyzeSentiment_i2 (Num x) = ''mean'')
   \<and> (\<forall>s. num_gt s (Num 0.25) \<longrightarrow>
          find_entry SENTIMENT_CATEGORIES_i2 s = None \<and> analyzeSentiment_i2 s = ''neutral'')"
proof (intro conjI allI impI)
  fix x :: real
  show "analyzeSentiment_i2 (Num x) \<noteq> ''very mean''"
    by (simp add: classifier_defs SENTIMENT_CATEGORIES_i2_def)
next
  fix x :: real
  assume "x \<le> - 0.25"
  then show "analyzeSentiment_i2 (Num x) = ''mean''"
    by (simp add: classifier_defs SENTIMENT_CATEGORIES_i2_def)
next
  fix s
  assume "num_gt s (Num 0.25)"
  then show "find_entry SENTIMENT_CATEGORIES_i2 s = None"
    by (cases s) (simp_all add: num_gt_def find_entry_def SENTIMENT_CATEGORIES_i2_def tenth_def)
next
  fix s
  assume "num_gt s (Num 0.25)"
  then show "analyzeSentiment_i2 s = ''neutral''"
    by (cases s) (simp_all add: num_gt_def classifier_defs SENTIMENT_CATEGORIES_i2_def)
qed

theorem neg_infinity_table_witness:
  "(- 1 :: real) \<le> - 0.25 \<and> analyzeSentiment_i2 (Num (- 1)) = ''mean''
   \<and> num_gt (Num 1) (Num 0.25) \<and> analyzeSentiment_i2 (Num 1) = ''neutral''
   \<and> find_entry SENTIMENT_CATEGORIES_i2 (Num 1) = None
   \<and> analyzeSentiment_i2 (Num (- 1000)) \<noteq> ''very mean''"
proof -
  have h: "(- 1 :: real) \<le> - 0.25 \<and> num_gt (Num 1) (Num 0.25)"
    by (simp add: num_gt_def)
  from h neg_infinity_table show ?thesis by blast
qed

section \<open>Properties of the aggregation\<close>







text \<open>
  C5. For the empty sequence the score is 0: the guard on the length returns it without
  dividing, where the quotient \<^verbatim>\<open>0 / 0\<close> would have been NaN.
\<close>

theorem empty_input_scores_zero:
  "analyzeSentimentScore analyze [] opts = Num 0
   \<and> averageComparative_p0 analyze [] opts = Num 0
   \<and> num_div (foldl (\<lambda>sum score. num_add sum (Num score)) (Num 0) [])
        (length ([] :: string list)) = NaN"
  by (simp add: analyzeSentimentScore_def averageComparative_p0_def)

section \<open>Properties of the score formatting\<close>

lemma decimal_small: "n < 10 \<Longrightarrow> decimal n = [digit_char n]"
  by (simp add: decimal.simps)

lemma decimal_large: "\<not> n < 10 \<Longrightarrow> decimal n = decimal (n div 10) @ [digit_char n]"
  by (subst decimal.simps) simp

lemma digit_char_is_digit: "digit_char d \<in> set ''0123456789''"
  unfolding digit_char_def by (rule nth_mem) simp

lemma digit_char_not_point: "digit_char d \<noteq> CHR ''.''"
  using digit_char_is_digit [of d] by auto

lemma digit_char_zero_iff: "digit_char d = CHR ''0'' \<longleftrightarrow> d mod 10 = 0"
proof -
  have "(''0123456789'' ! (d mod 10) = ''0123456789'' ! 0) \<longleftrightarrow> d mod 10 = 0"
    by (rule nth_eq_iff_index_eq) simp_all
  then show ?thesis by (simp add: digit_char_def)
qed

lemma decimal_no_point: "CHR ''.'' \<notin> set (decimal n)"
proof (induction n rule: decimal.induct)
  case (1 n)
  show ?case
  proof (cases "n < 10")
    case True
    then show ?thesis using digit_char_not_point [of n] by (simp add: decimal_small)
  next
    case False
    with 1 show ?thesis using digit_char_not_point [of n] by (simp add: decimal_large)
  qed
qed

lemma decimal_nonempty: "decimal n \<noteq> []"
  by (cases "n < 10") (simp_all add: decimal_small decimal_large)

lemma decimal_two_digits:
  assumes "10 \<le> n" and "n < 100"
  shows "decimal n = [digit_char (n div 10), digit_char n]"
proof -
  from assms have a: "\<not> n < 10" and b: "n div 10 < 10" by simp_all
  show ?thesis by (simp only: decimal_large [OF a] decimal_small [OF b] append.simps)
qed

lemma decimal_last_two:
  assumes "100 \<le> n"
  shows "decimal n = decimal (n div 100) @ [digit_char (n div 10), digit_char n]"
proof -
  from assms have a: "\<not> n < 10" and b: "\<not> n div 10 < 10" by simp_all
  have c: "n div 10 div 10 = n div 100" by (simp add: div_mult2_eq [symmetric])
  show ?thesis
    by (simp only: decimal_large [OF a] decimal_large [OF b] c append.simps append_assoc)
qed

text \<open>The digits of \<open>n\<close> with the point before the last two, as \<^verbatim>\<open>toFixed(2)\<close> lays them out.\<close>

lemma fixed_layout:
  fixes n :: nat
  defines "m0 \<equiv> decimal n"
  defines "k0 \<equiv> length m0"
  defines "m1 \<equiv> (if k0 \<le> 2 then replicate (3 - k0) (CHR ''0'') @ m0 else m0)"
  defines "k \<equiv> (if k0 \<le> 2 then 3 else k0)"
  shows "take (k - 2) m1 @ ''.'' @ drop (k - 2) m1
           = decimal (n div 100) @ [CHR ''.'', digit_char (n div 10), digit_char n]"
proof -
  consider (one) "n < 10" | (two) "10 \<le> n" "n < 100" | (more) "100 \<le> n" by linarith
  then show ?thesis
  proof cases
    case one
    then have "m0 = [digit_char n]" by (simp add: m0_def decimal_small)
    moreover from one have "decimal (n div 100) = [CHR ''0'']" "digit_char (n div 10) = CHR ''0''"
      by (simp_all add: decimal_small digit_char_def)
    ultimately show ?thesis by (simp add: m1_def k_def k0_def numeral_3_eq_3)
  next
    case two
    then have "m0 = [digit_char (n div 10), digit_char n]"
      by (simp add: m0_def decimal_two_digits)
    moreover from two have "decimal (n div 100) = [CHR ''0'']"
      by (simp add: decimal_small digit_char_def)
    ultimately show ?thesis by (simp add: m1_def k_def k0_def)
  next
    case more
    then have m0: "m0 = decimal (n div 100) @ [digit_char (n div 10), digit_char n]"
      by (simp add: m0_def decimal_last_two)
    then have "k0 = length (decimal (n div 100)) + 2" by (simp add: k0_def)
    moreover have "length (decimal (n div 100)) > 0" using decimal_nonempty by simp
    ultimately have "\<not> k0 \<le> 2" by simp
    then show ?thesis using m0 by (simp add: m1_def k_def k0_def)
  qed
qed

lemma toFixed2_finite:
  assumes "\<bar>x\<bar> < 10 ^ 21"
  shows "toFixed2 toString (Num x)
           = (if x < 0 then ''-'' else '''')
             @ decimal (nat \<lfloor>\<bar>x\<bar> * 100 + 1 / 2\<rfloor> div 100)
             @ [CHR ''.'', digit_char (nat \<lfloor>\<bar>x\<bar> * 100 + 1 / 2\<rfloor> div 10),
                digit_char (nat \<lfloor>\<bar>x\<bar> * 100 + 1 / 2\<rfloor>)]"
proof -
  have a: "(if x < 0 then - x else x) = \<bar>x\<bar>" by simp
  have b: "\<not> \<bar>x\<bar> \<ge> 10 ^ 21" using assms by simp
  show ?thesis
    unfolding toFixed2_def number.case Let_def a
    using b fixed_layout [of "nat \<lfloor>\<bar>x\<bar> * 100 + 1 / 2\<rfloor>"] by simp
qed

text \<open>The pattern does not match inside a prefix without a point when a point follows.\<close>

lemma replace_after_prefix:
  assumes "CHR ''.'' \<notin> set p" and "CHR ''.'' \<in> set s"
  shows "replace_trailing_zeros (p @ s) = p @ replace_trailing_zeros s"
  using assms
proof (induction p)
  case Nil
  show ?case by simp
next
  case (Cons c p)
  from Cons.prems have "\<not> zeros_to_end (c # p @ s)"
    by (auto simp: zeros_to_end_def list_all_iff)
  with Cons show ?case by (auto simp: match_at_start_def)
qed

lemma replace_fraction:
  assumes "a \<noteq> CHR ''.''" and "b \<noteq> CHR ''.''"
  shows "replace_trailing_zeros [CHR ''.'', a, b]
           = (if a = CHR ''0'' \<and> b = CHR ''0'' then []
              else if b = CHR ''0'' then [CHR ''.'', a]
              else [CHR ''.'', a, b])"
  using assms by (simp add: match_at_start_def zeros_to_end_def)

lemma formatScore_finite:
  assumes "\<bar>x\<bar> < 10 ^ 21"
  shows "formatScore toString (Num x)
           = (if x < 0 then ''-'' else ''+'')
             @ decimal (nat \<lfloor>\<bar>x\<bar> * 100 + 1 / 2\<rfloor> div 100)
             @ (if nat \<lfloor>\<bar>x\<bar> * 100 + 1 / 2\<rfloor> mod 100 = 0 then []
                else if nat \<lfloor>\<bar>x\<bar> * 100 + 1 / 2\<rfloor> mod 10 = 0
                  then [CHR ''.'', digit_char (nat \<lfloor>\<bar>x\<bar> * 100 + 1 / 2\<rfloor> div 10)]
                else [CHR ''.'', digit_char (nat \<lfloor>\<bar>x\<bar> * 100 + 1 / 2\<rfloor> div 10),
                      digit_char (nat \<lfloor>\<bar>x\<bar> * 100 + 1 / 2\<rfloor>)])"
proof -
  define n where "n = nat \<lfloor>\<bar>x\<bar> * 100 + 1 / 2\<rfloor>"
  define p where "p = (if x < 0 then ''-'' else '''') @ decimal (n div 100)"
  have np: "CHR ''.'' \<notin> set p" using decimal_no_point by (simp add: p_def)
  have fx: "toFixed2 toString (Num x) = p @ [CHR ''.'', digit_char (n div 10), digit_char n]"
    using toFixed2_finite [OF assms] by (simp add: p_def n_def)
  have "replace_trailing_zeros (toFixed2 toString (Num x))
          = p @ replace_trailing_zeros [CHR ''.'', digit_char (n div 10), digit_char n]"
    unfolding fx by (rule replace_after_prefix [OF np]) simp
  also have "\<dots> = p @ (if n div 10 mod 10 = 0 \<and> n mod 10 = 0 then []
                       else if n mod 10 = 0 then [CHR ''.'', digit_char (n div 10)]
                       else [CHR ''.'', digit_char (n div 10), digit_char n])"
    by (simp only: replace_fraction [OF digit_char_not_point digit_char_not_point]
        digit_char_zero_iff)
  finally have r: "replace_trailing_zeros (toFixed2 toString (Num x))
          = p @ (if n div 10 mod 10 = 0 \<and> n mod 10 = 0 then []
                 else if n mod 10 = 0 then [CHR ''.'', digit_char (n div 10)]
                 else [CHR ''.'', digit_char (n div 10), digit_char n])" .
  have "n mod 100 = n mod 10 + 10 * (n div 10 mod 10)"
    using mod_mult2_eq [of n 10 10] by simp
  then have h: "(n div 10 mod 10 = 0 \<and> n mod 10 = 0) \<longleftrightarrow> n mod 100 = 0"
    by auto
  show ?thesis
    unfolding formatScore_def r h
    by (simp add: num_ge_def p_def n_def not_le)
qed

lemma response_keys: "map fst (responses_s1 f) = map snd SENTIMENT_CATEGORIES_s1"
  by (simp add: responses_s1_def SENTIMENT_CATEGORIES_s1_def)

lemma response_found:
  "\<exists>r. map_of (responses_s1 f) (analyzeSentiment_s1 score) = Some r"
proof -
  have "analyzeSentiment_s1 score \<in> snd ` set SENTIMENT_CATEGORIES_s1"
    unfolding analyzeSentiment_s1_def
    by (rule label_in_table_with_neutral [OF neutral_in_tables(4)])
  then have "analyzeSentiment_s1 score \<in> fst ` set (responses_s1 f)"
    using response_keys [of f] by (metis set_map)
  then show ?thesis by (metis map_of_eq_None_iff not_Some_eq)
qed

lemma response_detail:
  assumes "map_of (responses_s1 f) k = Some r"
  shows "detail r = ''Your sentiment score is '' @ f
           @ '' ('' @ (if k = ''neutral'' then ''perfectly balanced'' else k) @ '').''"
  using assms by (auto simp: responses_s1_def split: if_splits)

lemma reply_s1_shape:
  "\<exists>r. map_of (responses_s1 (formatScore toString score)) (analyzeSentiment_s1 score) = Some r
      \<and> generateSentimentResponse_s1 toString username score postCount
          = Inr (getSentimentEmoji_s1 score @ '' Hey @'' @ username @ ''! '' @ message r
                 @ '' Your sentiment score is '' @ formatScore toString score @ '' (''
                 @ (if analyzeSentiment_s1 score = ''neutral'' then ''perfectly balanced''
                    else analyzeSentiment_s1 score)
                 @ ''). '' @ suggestion r)"
proof -
  obtain r where r: "map_of (responses_s1 (formatScore toString score)) (analyzeSentiment_s1 score) = Some r"
    using response_found by blast
  have "generateSentimentResponse_s1 toString username score postCount
          = Inr (getSentimentEmoji_s1 score @ '' Hey @'' @ username @ ''! '' @ message r
                 @ '' '' @ detail r @ '' '' @ suggestion r)"
    by (simp add: generateSentimentResponse_s1_def Let_def r)
  then show ?thesis using r response_detail [OF r] by simp
qed

lemma reply_s2_shape:
  "fst (generateSentimentResponse_s2 toString username score rnd)
     = getSentimentEmoji_s2 score @ '' Hey @'' @ username @ ''! ''
       @ interpolate (fst (getSentimentMessage score rnd))
       @ '' Your sentiment score is '' @ toFixed2 toString score
       @ '' ('' @ analyzeSentiment_s2 score @ ''). ''
       @ interpolate (fst (getSentimentSuggestion score (snd (getSentimentMessage score rnd))))"
  by (simp add: generateSentimentResponse_s2_def Let_def case_prod_beta)

text \<open>
  C7, as stated: the score in the reply has its trailing zeros stripped and a sign in front.
  The latest composer prints \<^verbatim>\<open>score.toFixed(2)\<close> as it is: for the score 1.5 the reply
  reads "1.50", with no sign.
\<close>

theorem latest_reply_keeps_zeros:
  "toFixed2 (\<lambda>x. []) (Num 1.5) = ''1.50''
   \<and> fst (generateSentimentResponse_s2 (\<lambda>x. []) ''alice'' (Num 1.5) (\<lambda>n. 0))
       = [CHR 0xF0, CHR 0x9F, CHR 0x98, CHR 0x8A]
         @ '' Hey @alice! Your posts are seriously uplifting to read. Your sentiment score is 1.50 (positive). Your posts are super positive! Maybe share what specifically got you so excited?''"
proof -
  have f: "toFixed2 (\<lambda>x. []) (Num 1.5) = ''1.50''"
    by (simp add: toFixed2_def Let_def decimal_last_two decimal_small digit_char_def)
  have e: "getSentimentEmoji_s2 (Num 1.5) = [CHR 0xF0, CHR 0x9F, CHR 0x98, CHR 0x8A]"
    by (simp add: getSentimentEmoji_s2_def num_eq_def tenth_def)
  have c: "analyzeSentiment_s2 (Num 1.5) = ''positive''"
    by (simp add: analyzeSentiment_s2_def num_eq_def)
  have m: "getSentimentMessage (Num 1.5) (\<lambda>n. 0)
             = (Str ''Your posts are seriously uplifting to read.'', \<lambda>n. 0)"
    by (simp add: getSentimentMessage_def num_eq_def num_ge_def getRandomArrayItem_def
        Math_random_def veryPositive_def)
  have s: "getSentimentSuggestion (Num 1.5) (\<lambda>n. 0)
             = (Str ''Your posts are super positive! Maybe share what specifically got you so excited?'', \<lambda>n. 0)"
    by (simp add: getSentimentSuggestion_def num_eq_def num_ge_def getRandomArrayItem_def
        Math_random_def veryPositiveSuggestions_def)
  from f e c m s show ?thesis
    by (simp add: reply_s2_shape)
qed

text \<open>
  C7, amended. For a finite score of magnitude below \<open>10\<^sup>2\<^sup>1\<close>, with \<open>n\<close> the magnitude in
  hundredths, rounded to the nearest integer (a half goes up): \<^verbatim>\<open>formatScore\<close> gives a sign
  (\<^verbatim>\<open>+\<close> from 0 on, \<^verbatim>\<open>-\<close> below), the digits of \<open>n div 100\<close>, and then nothing when both
  decimals are zero, the point and one decimal when only the second is zero, the point and
  both decimals otherwise; the composer with the response table puts this string into its
  reply, and never throws. The latest composer puts \<^verbatim>\<open>score.toFixed(2)\<close> into its reply:
  a minus sign for a negative score and none otherwise, the digits of \<open>n div 100\<close>, the
  point and both decimals, zeros included.
\<close>

theorem score_rendering:
  assumes "\<bar>x\<bar> < 10 ^ 21"
  shows "formatScore toString (Num x)
           = (if x < 0 then ''-'' else ''+'')
             @ decimal (nat \<lfloor>\<bar>x\<bar> * 100 + 1 / 2\<rfloor> div 100)
             @ (if nat \<lfloor>\<bar>x\<bar> * 100 + 1 / 2\<rfloor> mod 100 = 0 then []
                else if nat \<lfloor>\<bar>x\<bar> * 100 + 1 / 2\<rfloor> mod 10 = 0
                  then [CHR ''.'', digit_char (nat \<lfloor>\<bar>x\<bar> * 100 + 1 / 2\<rfloor> div 10)]
                else [CHR ''.'', digit_char (nat \<lfloor>\<bar>x\<bar> * 100 + 1 / 2\<rfloor> div 10),
                      digit_char (nat \<lfloor>\<bar>x\<bar> * 100 + 1 / 2\<rfloor>)])
         \<and> (\<exists>r. map_of (responses_s1 (formatScore toString (Num x))) (analyzeSentiment_s1 (Num x)) = Some r
                \<and> generateSentimentResponse_s1 toString username (Num x) postCount
                    = Inr (getSentimentEmoji_s1 (Num x) @ '' Hey @'' @ username @ ''! '' @ message r
                           @ '' Your sentiment score is '' @ formatScore toString (Num x) @ '' (''
                           @ (if analyzeSentiment_s1 (Num x) = ''neutral'' then ''perfectly balanced''
                              else analyzeSentiment_s1 (Num x))
                           @ ''). '' @ suggestion r))
         \<and> toFixed2 toString (Num x)
           = (if x < 0 then ''-'' else '''')
             @ decimal (nat \<lfloor>\<bar>x\<bar> * 100 + 1 / 2\<rfloor> div 100)
             @ [CHR ''.'', digit_char (nat \<lfloor>\<bar>x\<bar> * 100 + 1 / 2\<rfloor> div 10),
                digit_char (nat \<lfloor>\<bar>x\<bar> * 100 + 1 / 2\<rfloor>)]
         \<and> fst (generateSentimentResponse_s2 toString username (Num x) rnd)
           = getSentimentEmoji_s2 (Num x) @ '' Hey @'' @ username @ ''! ''
             @ interpolate (fst (getSentimentMessage (Num x) rnd))
             @ '' Your sentiment score is '' @ toFixed2 toString (Num x)
             @ '' ('' @ analyzeSentiment_s2 (Num x) @ ''). ''
             @ interpolate (fst (getSentimentSuggestion (Num x) (snd (getSentimentMessage (Num x) rnd))))"
  using formatScore_finite [OF assms, of toString] toFixed2_finite [OF assms, of toString]
    reply_s1_shape [of toString "Num x" username postCount]
    reply_s2_shape [of toString username "Num x" rnd]
  by blast

theorem score_rendering_witness:
  "\<bar>1.5 :: real\<bar> < 10 ^ 21 \<and> formatScore (\<lambda>x. []) (Num 1.5) = ''+1.5''
   \<and> \<bar>- 2 :: real\<bar> < 10 ^ 21 \<and> formatScore (\<lambda>x. []) (Num (- 2)) = ''-2''
   \<and> \<bar>0 :: real\<bar> < 10 ^ 21 \<and> formatScore (\<lambda>x. []) (Num 0) = ''+0''
   \<and> toFixed2 (\<lambda>x. []) (Num (- 2)) = ''-2.00''
   \<and> toFixed2 (\<lambda>x. []) (Num 0) = ''0.00''"
proof -
  have a: "\<bar>1.5 :: real\<bar> < 10 ^ 21" "\<bar>- 2 :: real\<bar> < 10 ^ 21" "\<bar>0 :: real\<bar> < 10 ^ 21"
    by simp_all
  have n: "nat \<lfloor>\<bar>1.5 :: real\<bar> * 100 + 1 / 2\<rfloor> = 150"
    "nat \<lfloor>\<bar>- 2 :: real\<bar> * 100 + 1 / 2\<rfloor> = 200"
    "nat \<lfloor>\<bar>0 :: real\<bar> * 100 + 1 / 2\<rfloor> = 0"
    by simp_all
  have d: "decimal 0 = ''0''" "decimal 1 = ''1''" "decimal 2 = ''2''"
    "digit_char 15 = CHR ''5''" "digit_char 150 = CHR ''0''"
    "digit_char 20 = CHR ''0''" "digit_char 200 = CHR ''0''" "digit_char 0 = CHR ''0''"
    by (simp_all add: decimal_small digit_char_def)
  from score_rendering [OF a(1), of "\<lambda>x. []"] score_rendering [OF a(2), of "\<lambda>x. []"]
    score_rendering [OF a(3), of "\<lambda>x. []"]
  show ?thesis unfolding n using a d by simp
qed

section \<open>Properties of the composer with phrase pools\<close>

lemma pick_in_pool:
  assumes "pool \<noteq> []" and "0 \<le> rnd 0" and "rnd 0 < 1"
  shows "fst (getRandomArrayItem pool rnd) \<in> Str ` set pool"
proof -
  define i where "i = \<lfloor>rnd 0 * real (length pool)\<rfloor>"
  have len: "0 < real (length pool)" using assms(1) by simp
  have "0 \<le> rnd 0 * real (length pool)" using assms(2) by simp
  then have lo: "0 \<le> i" by (simp add: i_def)
  have "rnd 0 * real (length pool) < 1 * real (length pool)"
    using assms(3) len by (rule mult_strict_right_mono)
  then have "i < int (length pool)" by (simp add: i_def floor_less_iff)
  with lo have hi: "nat i < length pool" by simp
  have "fst (getRandomArrayItem pool rnd) = Str (pool ! nat i)"
    using lo hi by (simp add: getRandomArrayItem_def Math_random_def i_def)
  with hi show ?thesis by simp
qed

lemma pick_reads_first:
  assumes "rnd 0 = rnd' 0"
  shows "fst (getRandomArrayItem pool rnd) = fst (getRandomArrayItem pool rnd')"
  using assms by (simp add: getRandomArrayItem_def Math_random_def Let_def)

lemma source_after_pick: "snd (getRandomArrayItem pool rnd) = (\<lambda>n. rnd (Suc n))"
  by (simp add: getRandomArrayItem_def Math_random_def Let_def)

lemma source_after_message: "snd (getSentimentMessage score rnd) = (\<lambda>n. rnd (Suc n))"
  by (simp add: getSentimentMessage_def source_after_pick)

lemma source_after_suggestion:
  "snd (getSentimentSuggestion score rnd)
     = (if num_eq score (Num 0) then rnd else (\<lambda>n. rnd (Suc n)))"
  by (simp add: getSentimentSuggestion_def source_after_pick)

lemma source_after_reply:
  "snd (generateSentimentResponse_s2 toString username score rnd)
     = snd (getSentimentSuggestion score (snd (getSentimentMessage score rnd)))"
  by (simp add: generateSentimentResponse_s2_def Let_def case_prod_beta)

lemma message_reads_first:
  assumes "rnd 0 = rnd' 0"
  shows "fst (getSentimentMessage score rnd) = fst (getSentimentMessage score rnd')"
  by (simp add: getSentimentMessage_def pick_reads_first [of rnd rnd', OF assms])

lemma suggestion_reads_first:
  assumes "rnd 0 = rnd' 0"
  shows "fst (getSentimentSuggestion score rnd) = fst (getSentimentSuggestion score rnd')"
  by (simp add: getSentimentSuggestion_def pick_reads_first [of rnd rnd', OF assms])

lemma constant_source_unchanged:
  "snd (generateSentimentResponse_s2 toString username score (\<lambda>n. c)) = (\<lambda>n. c)"
  by (simp add: source_after_reply source_after_message source_after_suggestion)

lemma replies_share_frame:
  "\<exists>m m' g g'.
     fst (generateSentimentResponse_s2 toString username score rnd)
       = getSentimentEmoji_s2 score @ '' Hey @'' @ username @ ''! '' @ m
         @ '' Your sentiment score is '' @ toFixed2 toString score
         @ '' ('' @ analyzeSentiment_s2 score @ ''). '' @ g
     \<and> fst (generateSentimentResponse_s2 toString username score rnd')
       = getSentimentEmoji_s2 score @ '' Hey @'' @ username @ ''! '' @ m'
         @ '' Your sentiment score is '' @ toFixed2 toString score
         @ '' ('' @ analyzeSentiment_s2 score @ ''). '' @ g'"
  by (rule exI, rule exI, rule exI, rule exI, rule conjI, rule reply_s2_shape, rule reply_s2_shape)

lemma reply_reads_two_values:
  assumes "rnd 0 = rnd' 0 \<and> rnd (Suc 0) = rnd' (Suc 0)"
  shows "fst (generateSentimentResponse_s2 toString username score rnd)
           = fst (generateSentimentResponse_s2 toString username score rnd')"
proof -
  have m: "fst (getSentimentMessage score rnd) = fst (getSentimentMessage score rnd')"
    by (rule message_reads_first) (simp add: assms)
  have g: "fst (getSentimentSuggestion score (snd (getSentimentMessage score rnd)))
          = fst (getSentimentSuggestion score (snd (getSentimentMessage score rnd')))"
    unfolding source_after_message by (rule suggestion_reads_first) (simp add: assms)
  show ?thesis unfolding reply_s2_shape m g ..
qed

text \<open>
  C8. With a generator that returns the same value at every call, two calls in a row with
  the same handle and score give the same reply. For any two generators the two replies
  are built around the same emoji, greeting, formatted score and category label, and differ
  at most in the message and the suggestion; the reply reads the generator through its
  first two values only. (The latest composer has no parameter \<^verbatim>\<open>postCount\<close>.)
\<close>

theorem reply_determinism:
  "fst (generateSentimentResponse_s2 toString username score
          (snd (generateSentimentResponse_s2 toString username score (\<lambda>n. c))))
     = fst (generateSentimentResponse_s2 toString username score (\<lambda>n. c))
   \<and> (\<exists>m m' g g'.
         fst (generateSentimentResponse_s2 toString username score rnd)
           = getSentimentEmoji_s2 score @ '' Hey @'' @ username @ ''! '' @ m
             @ '' Your sentiment score is '' @ toFixed2 toString score
             @ '' ('' @ analyzeSentiment_s2 score @ ''). '' @ g
         \<and> fst (generateSentimentResponse_s2 toString username score rnd')
           = getSentimentEmoji_s2 score @ '' Hey @'' @ username @ ''! '' @ m'
             @ '' Your sentiment score is '' @ toFixed2 toString score
             @ '' ('' @ analyzeSentiment_s2 score @ ''). '' @ g')
   \<and> (rnd 0 = rnd' 0 \<and> rnd (Suc 0) = rnd' (Suc 0) \<longrightarrow>
         fst (generateSentimentResponse_s2 toString username score rnd)
           = fst (generateSentimentResponse_s2 toString username score rnd'))"
proof (intro conjI impI)
  show "fst (generateSentimentResponse_s2 toString username score
          (snd (generateSentimentResponse_s2 toString username score (\<lambda>n. c))))
     = fst (generateSentimentResponse_s2 toString username score (\<lambda>n. c))"
    unfolding constant_source_unchanged ..
qed (rule replies_share_frame, rule reply_reads_two_values)

theorem reply_determinism_witness:
  "fst (generateSentimentResponse_s2 (\<lambda>x. []) ''bob'' (Num (- 2))
          (\<lambda>n. if n = 0 then 0.99 else if n = 1 then 0.35 else 0.5))
     = fst (generateSentimentResponse_s2 (\<lambda>x. []) ''bob'' (Num (- 2))
          (\<lambda>n. if n = 0 then 0.99 else if n = 1 then 0.35 else 0))
   \<and> fst (generateSentimentResponse_s2 (\<lambda>x. []) ''bob'' (Num (- 2)) (\<lambda>n. 0))
     = fst (generateSentimentResponse_s2 (\<lambda>x. []) ''bob'' (Num (- 2))
          (snd (generateSentimentResponse_s2 (\<lambda>x. []) ''bob'' (Num (- 2)) (\<lambda>n. 0))))"
  using reply_determinism [of "\<lambda>x. []" "''bob''" "Num (- 2)" 0
      "\<lambda>n. if n = 0 then 0.99 else if n = 1 then 0.35 else 0.5"
      "\<lambda>n. if n = 0 then 0.99 else if n = 1 then 0.35 else 0"]
  by simp

lemma suggestion_pools_nonempty:
  "extremelyNegativeSuggestions \<noteq> []" "veryNegativeSuggestions \<noteq> []"
  "moderatelyNegativeSuggestions \<noteq> []" "slightlyNegativeSuggestions \<noteq> []"
  "slightlyPositiveSuggestions \<noteq> []" "moderatelyPositiveSuggestions \<noteq> []"
  "veryPositiveSuggestions \<noteq> []" "extremelyPositiveSuggestions \<noteq> []"
  by (simp_all add: extremelyNegativeSuggestions_def veryNegativeSuggestions_def
      moderatelyNegativeSuggestions_def slightlyNegativeSuggestions_def
      slightlyPositiveSuggestions_def moderatelyPositiveSuggestions_def
      veryPositiveSuggestions_def extremelyPositiveSuggestions_def)

lemma suggestion_is_one_element:
  assumes "\<not> num_eq score (Num 0)" and "0 \<le> rnd 0" and "rnd 0 < 1"
  shows "\<exists>pool \<in> {extremelyNegativeSuggestions, veryNegativeSuggestions,
             moderatelyNegativeSuggestions, slightlyNegativeSuggestions,
             slightlyPositiveSuggestions, moderatelyPositiveSuggestions,
             veryPositiveSuggestions, extremelyPositiveSuggestions}.
           fst (getSentimentSuggestion score rnd) \<in> Str ` set pool"
  using assms(1) suggestion_pools_nonempty [THEN pick_in_pool [where rnd = rnd], OF assms(2,3)]
  by (simp add: getSentimentSuggestion_def)

lemma suggestion_by_range:
  assumes "0 \<le> rnd 0" and "rnd 0 < 1"
  shows "x \<le> - 3 \<Longrightarrow>
           fst (getSentimentSuggestion (Num x) rnd) \<in> Str ` set extremelyNegativeSuggestions"
    and "- 3 < x \<Longrightarrow> x \<le> - 1.5 \<Longrightarrow>
           fst (getSentimentSuggestion (Num x) rnd) \<in> Str ` set veryNegativeSuggestions"
    and "- 1.5 < x \<Longrightarrow> x \<le> - 0.5 \<Longrightarrow>
           fst (getSentimentSuggestion (Num x) rnd) \<in> Str ` set moderatelyNegativeSuggestions"
    and "- 0.5 < x \<Longrightarrow> x < 0 \<Longrightarrow>
           fst (getSentimentSuggestion (Num x) rnd) \<in> Str ` set slightlyNegativeSuggestions"
    and "0 < x \<Longrightarrow> x < 0.5 \<Longrightarrow>
           fst (getSentimentSuggestion (Num x) rnd) \<in> Str ` set slightlyPositiveSuggestions"
    and "0.5 \<le> x \<Longrightarrow> x < 1.5 \<Longrightarrow>
           fst (getSentimentSuggestion (Num x) rnd) \<in> Str ` set moderatelyPositiveSuggestions"
    and "1.5 \<le> x \<Longrightarrow> x < 3 \<Longrightarrow>
           fst (getSentimentSuggestion (Num x) rnd) \<in> Str ` set veryPositiveSuggestions"
    and "3 \<le> x \<Longrightarrow>
           fst (getSentimentSuggestion (Num x) rnd) \<in> Str ` set extremelyPositiveSuggestions"
  using suggestion_pools_nonempty [THEN pick_in_pool [where rnd = rnd], OF assms]
  by (simp_all add: getSentimentSuggestion_def num_eq_def num_ge_def)

lemma neutral_suggestions_joined:
  "join_comma neutralSuggestions
     = ''Your posts are pretty neutral - try adding some personality.,Show a bit more of your authentic feelings next time.,Your tone is balanced, but don't be afraid to express more emotion.,Consider adding more colour to your posts to stand out.,Your neutrality is fine, but people connect more with emotional content.,Try injecting some enthusiasm into your next post.,Your posts are safe, but sometimes taking a stance connects better.,Being neutral is fine, but showing passion can be more engaging.,Consider whether your balanced approach is actually what you intend.,A bit more expressiveness might make your posts more memorable.''"
  by (simp add: neutralSuggestions_def)

text \<open>
  C10. In the latest composer the suggestion for the score 0 is the whole array
  \<^verbatim>\<open>neutralSuggestions\<close>, and no random number is drawn for it: the reply for the score 0
  ends with its ten strings joined by commas. For every other score the suggestion is one
  element of one pool (the generator returning a value in \<open>[0, 1)\<close>), and for a finite
  score it is the pool of the range the score lies in.
\<close>

theorem zero_score_suggestion:
  "getSentimentSuggestion (Num 0) rnd = (Arr neutralSuggestions, rnd)
   \<and> length neutralSuggestions = 10
   \<and> fst (generateSentimentResponse_s2 toString username (Num 0) rnd)
       = [CHR 0xF0, CHR 0x9F, CHR 0x98, CHR 0x90] @ '' Hey @'' @ username @ ''! ''
         @ interpolate (fst (getSentimentMessage (Num 0) rnd))
         @ '' Your sentiment score is 0.00 (neutral). ''
         @ ''Your posts are pretty neutral - try adding some personality.,Show a bit more of your authentic feelings next time.,Your tone is balanced, but don't be afraid to express more emotion.,Consider adding more colour to your posts to stand out.,Your neutrality is fine, but people connect more with emotional content.,Try injecting some enthusiasm into your next post.,Your posts are safe, but sometimes taking a stance connects better.,Being neutral is fine, but showing passion can be more engaging.,Consider whether your balanced approach is actually what you intend.,A bit more expressiveness might make your posts more memorable.''
   \<and> (0 \<le> rnd 0 \<and> rnd 0 < 1 \<longrightarrow>
        (\<forall>score. \<not> num_eq score (Num 0) \<longrightarrow>
           (\<exists>pool \<in> {extremelyNegativeSuggestions, veryNegativeSuggestions,
               moderatelyNegativeSuggestions, slightlyNegativeSuggestions,
               slightlyPositiveSuggestions, moderatelyPositiveSuggestions,
               veryPositiveSuggestions, extremelyPositiveSuggestions}.
             fst (getSentimentSuggestion score rnd) \<in> Str ` set pool))
        \<and> (\<forall>x. x \<le> - 3 \<longrightarrow>
              fst (getSentimentSuggestion (Num x) rnd) \<in> Str ` set extremelyNegativeSuggestions)
        \<and> (\<forall>x. - 3 < x \<and> x \<le> - 1.5 \<longrightarrow>
              fst (getSentimentSuggestion (Num x) rnd) \<in> Str ` set veryNegativeSuggestions)
        \<and> (\<forall>x. - 1.5 < x \<and> x \<le> - 0.5 \<longrightarrow>
              fst (getSentimentSuggestion (Num x) rnd) \<in> Str ` set moderatelyNegativeSuggestions)
        \<and> (\<forall>x. - 0.5 < x \<and> x < 0 \<longrightarrow>
              fst (getSentimentSuggestion (Num x) rnd) \<in> Str ` set slightlyNegativeSuggestions)
        \<and> (\<forall>x. 0 < x \<and> x < 0.5 \<longrightarrow>
              fst (getSentimentSuggestion (Num x) rnd) \<in> Str ` set slightlyPositiveSuggestions)
        \<and> (\<forall>x. 0.5 \<le> x \<and> x < 1.5 \<longrightarrow>
              fst (getSentimentSuggestion (Num x) rnd) \<in> Str ` set moderatelyPositiveSuggestions)
        \<and> (\<forall>x. 1.5 \<le> x \<and> x < 3 \<longrightarrow>
              fst (getSentimentSuggestion (Num x) rnd) \<in> Str ` set veryPositiveSuggestions)
        \<and> (\<forall>x. 3 \<le> x \<longrightarrow>
              fst (getSentimentSuggestion (Num x) rnd) \<in> Str ` set extremelyPositiveSuggestions))"
proof (intro conjI impI allI)
  show z: "getSentimentSuggestion (Num 0) rnd = (Arr neutralSuggestions, rnd)"
    by (simp add: getSentimentSuggestion_def num_eq_def)
  show "length neutralSuggestions = 10"
    by (simp add: neutralSuggestions_def)
  have f: "toFixed2 toString (Num 0) = ''0.00''"
    by (simp add: toFixed2_def Let_def decimal_small digit_char_def)
  have e: "getSentimentEmoji_s2 (Num 0) = [CHR 0xF0, CHR 0x9F, CHR 0x98, CHR 0x90]"
    by (simp add: getSentimentEmoji_s2_def num_eq_def)
  have c: "analyzeSentiment_s2 (Num 0) = ''neutral''"
    by (simp add: analyzeSentiment_s2_def num_eq_def)
  have g: "getSentimentSuggestion (Num 0) (snd (getSentimentMessage (Num 0) rnd))
             = (Arr neutralSuggestions, snd (getSentimentMessage (Num 0) rnd))"
    by (simp add: getSentimentSuggestion_def num_eq_def)
  show "fst (generateSentimentResponse_s2 toString username (Num 0) rnd)
       = [CHR 0xF0, CHR 0x9F, CHR 0x98, CHR 0x90] @ '' Hey @'' @ username @ ''! ''
         @ interpolate (fst (getSentimentMessage (Num 0) rnd))
         @ '' Your sentiment score is 0.00 (neutral). ''
         @ ''Your posts are pretty neutral - try adding some personality.,Show a bit more of your authentic feelings next time.,Your tone is balanced, but don't be afraid to express more emotion.,Consider adding more colour to your posts to stand out.,Your neutrality is fine, but people connect more with emotional content.,Try injecting some enthusiasm into your next post.,Your posts are safe, but sometimes taking a stance connects better.,Being neutral is fine, but showing passion can be more engaging.,Consider whether your balanced approach is actually what you intend.,A bit more expressiveness might make your posts more memorable.''"
    unfolding reply_s2_shape f e c g fst_conv interpolate.simps neutral_suggestions_joined
    by simp
qed ((elim conjE)?, (rule suggestion_is_one_element suggestion_by_range; assumption))+

theorem zero_score_suggestion_witness:
  "(0 :: real) \<le> 0.5 \<and> (0.5 :: real) < 1
   \<and> \<not> num_eq (Num (- 2)) (Num 0) \<and> - 3 < (- 2 :: real) \<and> (- 2 :: real) \<le> - 1.5
   \<and> fst (getSentimentSuggestion (Num (- 2)) (\<lambda>n. 0.5)) \<in> Str ` set veryNegativeSuggestions
   \<and> fst (getSentimentSuggestion (Num 0) (\<lambda>n. 0.5)) = Arr neutralSuggestions"
proof -
  have h: "(0 :: real) \<le> 0.5 \<and> (0.5 :: real) < 1 \<and> \<not> num_eq (Num (- 2)) (Num 0)
      \<and> - 3 < (- 2 :: real) \<and> (- 2 :: real) \<le> - 1.5"
    by (simp add: num_eq_def)
  from h zero_score_suggestion [of "\<lambda>n. 0.5" "\<lambda>x. []" "''bob''"] show ?thesis
    by simp
qed

end
